theory Spec2Isabelle
  imports Complex_Main "HOL-Library.Word" "HOL-Library.Log_Nat"
begin

section \<open>The road map of Source/Carla/MapGen/RoadMap.cpp\<close>

text \<open>
  The file is C++ on top of Unreal Engine. Three kinds of things meet in it, and the
  embedding keeps them apart.

  \<^item> Machine integers. \<open>uint32\<close>, \<open>int32\<close> and \<open>uint8\<close> are words; a
    conversion between \<open>uint32\<close> and \<open>int32\<close> keeps the bits, so both are
    \<open>32 word\<close>, read with \<open>unat\<close> or \<open>sint\<close> as the code reads them.
  \<^item> Floating point. The type \<open>float\<close> is a type variable \<open>'f\<close> that only has to
    carry the operations the file writes (\<open>+\<close>, \<open>-\<close>, \<open>*\<close>, \<open>/\<close>, \<open><\<close>,
    \<open>0\<close>, \<open>1\<close>); nothing is assumed of them. A statement proved for every \<open>'f\<close>
    holds whatever the arithmetic does (rounding, infinities, NaN). Where a statement
    needs arithmetic, it is made at one of two named instances: exact arithmetic on the
    reals, and binary32 with its rounding.
  \<^item> The engine. \<open>FTransform\<close>, \<open>FQuat\<close>, \<open>FMath::FloorToInt\<close> and the other
    engine functions the file calls are not part of the repository; they are the fields
    of a record \<open>Platform\<close> that every operation takes as its first argument, together
    with the compiler's conversions into \<open>float\<close>.
\<close>

type_synonym uint32 = "32 word"
type_synonym int32 = "32 word"
type_synonym uint8 = "8 word"

record 'f FVector =
  X :: 'f
  Y :: 'f
  Z :: 'f

record 'f FRotator =
  Pitch :: 'f
  Yaw :: 'f
  Roll :: 'f

record FColor =
  R :: uint8
  G :: uint8
  B :: uint8
  A :: uint8

text \<open>
  \<open>'t\<close> stands for \<open>FTransform\<close> and \<open>'q\<close> for \<open>FQuat\<close>. \<open>FloatLiteral\<close> reads
  a literal such as \<open>180.0f\<close>, \<open>UIntToFloat\<close> is \<open>static_cast<float>\<close> on a
  \<open>uint32\<close>, \<open>DefaultVector\<close> and \<open>DefaultTransform\<close> are what the default
  constructors of \<open>FVector\<close> and \<open>FTransform\<close> leave in a member.
\<close>

record ('f, 't, 'q) Platform =
  FloorToInt :: "'f \<Rightarrow> int32"
  UIntToFloat :: "uint32 \<Rightarrow> 'f"
  FloatLiteral :: "int \<Rightarrow> 'f"
  TransformPosition :: "'t \<Rightarrow> 'f FVector \<Rightarrow> 'f FVector"
  InverseTransformPosition :: "'t \<Rightarrow> 'f FVector \<Rightarrow> 'f FVector"
  GetRotation :: "'t \<Rightarrow> 'q"
  GetForwardVector :: "'q \<Rightarrow> 'f FVector"
  Rotator :: "'q \<Rightarrow> 'f FRotator"
  MakeQuat :: "'f FRotator \<Rightarrow> 'q"
  DefaultVector :: "'f FVector"
  DefaultTransform :: 't

text \<open>The operators of \<open>FVector\<close> that the file uses work component by component.\<close>

definition FVector_plus :: "('f::plus) FVector \<Rightarrow> 'f FVector \<Rightarrow> 'f FVector" where
  "FVector_plus a b = \<lparr>X = X a + X b, Y = Y a + Y b, Z = Z a + Z b\<rparr>"

definition FVector_minus :: "('f::minus) FVector \<Rightarrow> 'f FVector \<Rightarrow> 'f FVector" where
  "FVector_minus a b = \<lparr>X = X a - X b, Y = Y a - Y b, Z = Z a - Z b\<rparr>"

definition FVector_scale :: "('f::times) FVector \<Rightarrow> 'f \<Rightarrow> 'f FVector" where
  "FVector_scale a s = \<lparr>X = X a * s, Y = Y a * s, Z = Z a * s\<rparr>"

definition FVector_neg :: "('f::uminus) FVector \<Rightarrow> 'f FVector" where
  "FVector_neg a = \<lparr>X = - X a, Y = - Y a, Z = - Z a\<rparr>"

definition DotProduct :: "('f::{plus,times}) FVector \<Rightarrow> 'f FVector \<Rightarrow> 'f" where
  "DotProduct a b = X a * X b + Y a * Y b + Z a * Z b"

text \<open>
  \<open>FMath::Clamp\<close> at \<open>int32\<close>, the engine's
  \<^verbatim>\<open>X<Min ? Min : X<Max ? X : Max\<close>; the comparisons are signed.
\<close>

definition Clamp :: "int32 \<Rightarrow> int32 \<Rightarrow> int32 \<Rightarrow> int32" where
  "Clamp x MinVal MaxVal = (if x <s MinVal then MinVal else if x <s MaxVal then x else MaxVal)"

text \<open>
  \<^verbatim>\<open>static uint32 ClampFloatToUInt(const float Value, int32 Min, int32 Max)\<close>:
  the \<open>int32\<close> that \<open>Clamp\<close> returns is converted to the \<open>uint32\<close> result.
\<close>

definition ClampFloatToUInt ::
  "('f, 't, 'q) Platform \<Rightarrow> 'f \<Rightarrow> int32 \<Rightarrow> int32 \<Rightarrow> uint32" where
  "ClampFloatToUInt P Value MinVal MaxVal = Clamp (FloorToInt P Value) MinVal MaxVal"

subsection \<open>The data\<close>

record 'f FRoadMapPixelData =
  bIsOffRoad :: bool
  bHasDirection :: bool
  Direction :: "'f FVector"

record ('f, 't) URoadMap =
  RoadMap :: "'f FRoadMapPixelData list"
  PixelsPerCentimeter :: 'f
  Width :: uint32
  Height :: uint32
  WorldToMap :: 't
  MapOffset :: "'f FVector"

text \<open>
  Modelled from the spec: the enumeration \<open>ECityMapMeshTag\<close> is declared in a header
  that is not among the sources. The six tags that \<open>AppendPixel\<close> names are
  constructors of their own; \<open>OtherTag\<close> stands for every other tag.
\<close>

datatype ECityMapMeshTag =
    RoadTwoLanes_LaneRight
  | RoadTwoLanes_LaneLeft
  | Road90DegTurn_Lane0
  | Road90DegTurn_Lane1
  | Road90DegTurn_Lane2
  | Road90DegTurn_Lane3
  | OtherTag nat

text \<open>
  A failed \<open>check\<close> ends the program, and so does an index outside a \<open>TArray\<close>;
  both are values of \<open>fatal\<close>, and an operation that can fail returns
  \<open>fatal + result\<close>.
\<close>

datatype fatal = CheckFailed | IndexOutOfBounds

datatype log_line = Warning string

subsection \<open>The members declared in RoadMap.h\<close>

text \<open>
  Modelled from the spec: \<open>AppendEmptyPixel\<close> is defined in RoadMap.h, which is not
  among the sources. The specification: it appends a cell with \<open>offRoad = true\<close>,
  \<open>hasDirection = false\<close> and no direction value (the member is left as its default
  constructor leaves it).
\<close>

definition AppendEmptyPixel ::
  "('f, 't, 'q) Platform \<Rightarrow> ('f, 't) URoadMap \<Rightarrow> ('f, 't) URoadMap" where
  "AppendEmptyPixel P m =
     m\<lparr>RoadMap := RoadMap m @
        [\<lparr>bIsOffRoad = True, bHasDirection = False, Direction = DefaultVector P\<rparr>]\<rparr>"

text \<open>
  Modelled from the spec: \<open>IsValid\<close> is defined in RoadMap.h. The specification: the
  grid is valid when it is non-empty, \<open>width * height\<close> is the number of cells, and
  both are positive.
\<close>

definition IsValid :: "('f, 't) URoadMap \<Rightarrow> bool" where
  "IsValid m \<longleftrightarrow>
     RoadMap m \<noteq> [] \<and> unat (Width m) * unat (Height m) = length (RoadMap m) \<and>
     0 < unat (Width m) \<and> 0 < unat (Height m)"

text \<open>
  Modelled from the spec: the overload \<open>GetDataAt(uint32 PixelX, uint32 PixelY)\<close> is
  defined in RoadMap.h. The specification: the grid must be valid, and the cell is
  \<open>cells[y * width + x]\<close>.
\<close>

definition GetDataAtPixel ::
  "('f, 't) URoadMap \<Rightarrow> uint32 \<Rightarrow> uint32 \<Rightarrow> fatal + 'f FRoadMapPixelData" where
  "GetDataAtPixel m PixelX PixelY =
     (if \<not> IsValid m then Inl CheckFailed
      else let i = unat PixelY * unat (Width m) + unat PixelX
           in if i < length (RoadMap m) then Inr (RoadMap m ! i) else Inl IndexOutOfBounds)"

subsection \<open>The constructor and \<open>Set\<close>\<close>

text \<open>
  \<^verbatim>\<open>URoadMap::URoadMap\<close> initialises \<open>PixelsPerCentimeter\<close>, \<open>Width\<close> and
  \<open>Height\<close> and then calls \<open>AppendEmptyPixel\<close>; the other members are default
  constructed.
\<close>

definition URoadMap_ctor :: "('f::one, 't, 'q) Platform \<Rightarrow> ('f, 't) URoadMap" where
  "URoadMap_ctor P =
     AppendEmptyPixel P
       \<lparr>RoadMap = [], PixelsPerCentimeter = 1, Width = 1, Height = 1,
        WorldToMap = DefaultTransform P, MapOffset = DefaultVector P\<rparr>"

definition Set ::
  "uint32 \<Rightarrow> uint32 \<Rightarrow> 'f \<Rightarrow> 't \<Rightarrow> 'f FVector \<Rightarrow> ('f, 't) URoadMap \<Rightarrow> ('f, 't) URoadMap" where
  "Set inWidth inHeight inPinxelsPerCentimeter inWorldToMap inMapOffset m =
     m\<lparr>Width := inWidth, Height := inHeight,
       PixelsPerCentimeter := inPinxelsPerCentimeter,
       WorldToMap := inWorldToMap, MapOffset := inMapOffset\<rparr>"

subsection \<open>Coordinates and the point query\<close>

definition GetWorldLocation ::
  "('f::{zero,plus,inverse}, 't, 'q) Platform \<Rightarrow> ('f, 't) URoadMap \<Rightarrow> uint32 \<Rightarrow> uint32 \<Rightarrow>
     'f FVector" where
  "GetWorldLocation P m PixelX PixelY =
     (let RelativePosition =
            \<lparr>X = UIntToFloat P PixelX / PixelsPerCentimeter m,
             Y = UIntToFloat P PixelY / PixelsPerCentimeter m,
             Z = 0\<rparr>
      in InverseTransformPosition P (WorldToMap m)
           (FVector_plus RelativePosition (MapOffset m)))"

text \<open>
  \<open>toGrid\<close> is the pixel that \<open>GetDataAt\<close> computes from a world location (the
  three lines after its \<open>check\<close>), under the name the specification gives it.
  \<open>Width - 1\<close> is computed in \<open>uint32\<close> and passed as an \<open>int32\<close>.
\<close>

definition toGrid ::
  "('f::{minus,times}, 't, 'q) Platform \<Rightarrow> ('f, 't) URoadMap \<Rightarrow> 'f FVector \<Rightarrow>
     uint32 \<times> uint32" where
  "toGrid P m WorldLocation =
     (let Location =
            FVector_minus (TransformPosition P (WorldToMap m) WorldLocation) (MapOffset m);
          x = ClampFloatToUInt P (PixelsPerCentimeter m * X Location) 0 (Width m - 1);
          y = ClampFloatToUInt P (PixelsPerCentimeter m * Y Location) 0 (Height m - 1)
      in (x, y))"

definition GetDataAt ::
  "('f::{minus,times}, 't, 'q) Platform \<Rightarrow> ('f, 't) URoadMap \<Rightarrow> 'f FVector \<Rightarrow>
     fatal + 'f FRoadMapPixelData" where
  "GetDataAt P m WorldLocation =
     (if \<not> IsValid m then Inl CheckFailed
      else case toGrid P m WorldLocation of (x, y) \<Rightarrow> GetDataAtPixel m x y)"

subsection \<open>The area query\<close>

record 'f FRoadMapIntersectionResult =
  OffRoad :: 'f
  OppositeLane :: 'f

text \<open>
  A loop \<^verbatim>\<open>for (float V = Start; V < Bound; V += Step) { ... }\<close> over a state
  \<open>st\<close>, started at \<open>v = Start\<close>. Nothing bounds the number of its steps, so it
  is a partial function: \<open>None\<close> is a loop that never ends. A body that fails
  fatally ends the loop with the failure.
\<close>

partial_function (option) for_loop ::
  "('f \<Rightarrow> 'st \<Rightarrow> (fatal + 'st) option) \<Rightarrow> ('f::{plus,ord}) \<Rightarrow> 'f \<Rightarrow> 'f \<Rightarrow> 'st \<Rightarrow>
     (fatal + 'st) option" where
  "for_loop body Bound Step v st =
     (if v < Bound then
        (case body v st of
           None \<Rightarrow> None
         | Some (Inl e) \<Rightarrow> Some (Inl e)
         | Some (Inr st') \<Rightarrow> for_loop body Bound Step (v + Step) st')
      else Some (Inr st))"

text \<open>
  The body of the inner loop of \<open>Intersect\<close>, on the pair of \<open>CheckCount\<close> and
  \<open>Result\<close>. \<open>CheckCount\<close> is a \<open>uint32\<close>: \<open>++CheckCount\<close> wraps.
\<close>

definition Intersect_check ::
  "('f::{zero,one,plus,minus,times,ord}, 't, 'q) Platform \<Rightarrow> ('f, 't) URoadMap \<Rightarrow> 't \<Rightarrow>
     'f FVector \<Rightarrow> 'f \<Rightarrow> 'f \<Rightarrow> uint32 \<times> 'f FRoadMapIntersectionResult \<Rightarrow>
     fatal + uint32 \<times> 'f FRoadMapIntersectionResult" where
  "Intersect_check P m BoxTransform DirectionOfMovement x y st =
     (let CheckCount = fst st + 1;
          Result = snd st;
          Location = TransformPosition P BoxTransform \<lparr>X = x, Y = y, Z = 0\<rparr>
      in case_sum Inl
           (\<lambda>Data.
              Inr (CheckCount,
                   if bIsOffRoad Data then Result\<lparr>OffRoad := OffRoad Result + 1\<rparr>
                   else if bHasDirection Data \<and>
                           0 < DotProduct (Direction Data) DirectionOfMovement
                        then Result\<lparr>OppositeLane := OppositeLane Result + 1\<rparr>
                        else Result))
           (GetDataAt P m Location))"

definition zero_checks :: log_line where
  "zero_checks = Warning ''URoadMap::Intersect did zero checks''"

definition Intersect ::
  "('f::{zero,one,plus,minus,uminus,times,inverse,ord}, 't, 'q) Platform \<Rightarrow>
     ('f, 't) URoadMap \<Rightarrow> 't \<Rightarrow> 'f FVector \<Rightarrow> 'f \<Rightarrow>
     (fatal + 'f FRoadMapIntersectionResult \<times> log_line list) option" where
  "Intersect P m BoxTransform BoxExtent ChecksPerCentimeter =
     (let DirectionOfMovement = GetForwardVector P (GetRotation P BoxTransform);
          Step = 1 / ChecksPerCentimeter
      in case for_loop
                (\<lambda>x. for_loop
                   (\<lambda>y st. Some (Intersect_check P m BoxTransform DirectionOfMovement x y st))
                   (Y BoxExtent) Step (- Y BoxExtent))
                (X BoxExtent) Step (- X BoxExtent)
                (0, \<lparr>OffRoad = 0, OppositeLane = 0\<rparr>) of
           None \<Rightarrow> None
         | Some (Inl e) \<Rightarrow> Some (Inl e)
         | Some (Inr (CheckCount, Result)) \<Rightarrow>
             if 0 < CheckCount
             then Some (Inr (\<lparr>OffRoad = OffRoad Result / UIntToFloat P CheckCount,
                              OppositeLane = OppositeLane Result / UIntToFloat P CheckCount\<rparr>,
                             []))
             else Some (Inr (Result, [zero_checks])))"

subsection \<open>The colour of a cell\<close>

text \<open>
  The lambda \<open>ToColor\<close> of \<open>Encode\<close>. The constructor of \<open>FColor\<close> takes
  \<open>uint8\<close> arguments, so the \<open>int32\<close> that \<open>FloorToInt\<close> returns is cut to its
  low eight bits; the alpha channel is the constructor's default, 255.
\<close>

definition ToColor :: "('f::{one,plus,times,inverse}, 't, 'q) Platform \<Rightarrow> 'f \<Rightarrow> int32" where
  "ToColor P x = FloorToInt P (FloatLiteral P 255 * (x + 1) / FloatLiteral P 2)"

definition Encode ::
  "('f::{one,plus,times,inverse}, 't, 'q) Platform \<Rightarrow> 'f FRoadMapPixelData \<Rightarrow> FColor" where
  "Encode P Data =
     (if bIsOffRoad Data then \<lparr>R = 0, G = 0, B = 0, A = 255\<rparr>
      else if \<not> bHasDirection Data then \<lparr>R = 255, G = 255, B = 255, A = 255\<rparr>
      else \<lparr>R = ucast (ToColor P (X (Direction Data))),
            G = ucast (ToColor P (Y (Direction Data))),
            B = ucast (ToColor P (Z (Direction Data))),
            A = 255\<rparr>)"

subsection \<open>Filling the map\<close>

text \<open>
  \<open>AppendPixel\<close> appends an empty pixel and then writes through the reference
  \<open>RoadMap.Last()\<close>; here the last cell is replaced by its updated value.
\<close>

definition AppendPixel ::
  "('f::{one,plus,uminus,times}, 't, 'q) Platform \<Rightarrow> ECityMapMeshTag \<Rightarrow> 't \<Rightarrow> bool \<Rightarrow>
     ('f, 't) URoadMap \<Rightarrow> ('f, 't) URoadMap" where
  "AppendPixel P Tag Transform bInvertDirection m =
     (let m1 = AppendEmptyPixel P m;
          Data = (last (RoadMap m1))\<lparr>bIsOffRoad := False\<rparr>;
          Rotator0 = Rotator P (GetRotation P Transform);
          (Rotator1, Data1) =
            (case Tag of
               RoadTwoLanes_LaneRight \<Rightarrow> (Rotator0, Data\<lparr>bHasDirection := True\<rparr>)
             | Road90DegTurn_Lane0 \<Rightarrow> (Rotator0, Data\<lparr>bHasDirection := True\<rparr>)
             | RoadTwoLanes_LaneLeft \<Rightarrow>
                 (Rotator0\<lparr>Yaw := Yaw Rotator0 + FloatLiteral P 180\<rparr>,
                  Data\<lparr>bHasDirection := True\<rparr>)
             | Road90DegTurn_Lane1 \<Rightarrow>
                 (Rotator0\<lparr>Yaw := Yaw Rotator0 + FloatLiteral P 180\<rparr>,
                  Data\<lparr>bHasDirection := True\<rparr>)
             | Road90DegTurn_Lane2 \<Rightarrow>
                 (Rotator0\<lparr>Yaw := Yaw Rotator0 + FloatLiteral P 90\<rparr>,
                  Data\<lparr>bHasDirection := True\<rparr>)
             | Road90DegTurn_Lane3 \<Rightarrow>
                 (Rotator0\<lparr>Yaw := Yaw Rotator0 + FloatLiteral P 270\<rparr>,
                  Data\<lparr>bHasDirection := True\<rparr>)
             | OtherTag _ \<Rightarrow> (Rotator0, Data));
          Data2 =
            (if bHasDirection Data1
             then let Rotation = MakeQuat P Rotator1;
                      D = GetForwardVector P Rotation
                  in Data1\<lparr>Direction := (if bInvertDirection then FVector_scale D (- 1) else D)\<rparr>
             else Data1)
      in m1\<lparr>RoadMap := butlast (RoadMap m1) @ [Data2]\<rparr>)"

subsection \<open>Sequences of operations\<close>

text \<open>
  The states a caller can reach: the constructor, followed by any sequence of \<open>Set\<close>,
  \<open>AppendEmptyPixel\<close> and \<open>AppendPixel\<close>. \<open>is_append\<close> tells the appends,
  \<open>dimensions\<close> follows the \<open>Width\<close> and \<open>Height\<close> that the operations leave,
  and \<open>empty_pixel\<close> is the cell that \<open>AppendEmptyPixel\<close> appends.
\<close>

datatype ('f, 't) operation =
    DoSet uint32 uint32 'f 't "'f FVector"
  | DoAppendEmptyPixel
  | DoAppendPixel ECityMapMeshTag 't bool

fun apply_operation ::
  "('f::{one,plus,uminus,times}, 't, 'q) Platform \<Rightarrow> ('f, 't) URoadMap \<Rightarrow> ('f, 't) operation \<Rightarrow>
     ('f, 't) URoadMap" where
  "apply_operation P m (DoSet w h c t off) = Set w h c t off m"
| "apply_operation P m DoAppendEmptyPixel = AppendEmptyPixel P m"
| "apply_operation P m (DoAppendPixel Tag t invert) = AppendPixel P Tag t invert m"

definition run ::
  "('f::{one,plus,uminus,times}, 't, 'q) Platform \<Rightarrow> ('f, 't) operation list \<Rightarrow> ('f, 't) URoadMap" where
  "run P ops = foldl (apply_operation P) (URoadMap_ctor P) ops"

fun is_append :: "('f, 't) operation \<Rightarrow> bool" where
  "is_append (DoSet w h c t off) = False"
| "is_append DoAppendEmptyPixel = True"
| "is_append (DoAppendPixel Tag t invert) = True"

fun dimensions :: "uint32 \<times> uint32 \<Rightarrow> ('f, 't) operation \<Rightarrow> uint32 \<times> uint32" where
  "dimensions d (DoSet w h c t off) = (w, h)"
| "dimensions d DoAppendEmptyPixel = d"
| "dimensions d (DoAppendPixel Tag t invert) = d"

definition empty_pixel :: "('f, 't, 'q) Platform \<Rightarrow> 'f FRoadMapPixelData" where
  "empty_pixel P = \<lparr>bIsOffRoad = True, bHasDirection = False, Direction = DefaultVector P\<rparr>"

section \<open>An instance with exact arithmetic\<close>

text \<open>
  On this platform \<open>float\<close> is \<open>real\<close> with exact arithmetic, and a transform is a
  rotation about the Z axis by a number of quarter turns followed by a translation (unit
  scale). It gives examples of the statements that hold for every \<open>float\<close> type, and
  it shows where a failure of the code is not a matter of rounding. What the code
  computes with its rounding is the subject of the second instance. On both instances
  \<open>FloorToInt\<close> is the floor, cut to 32 bits; what the engine returns for a value
  beyond the range of \<open>int32\<close> is not modelled by them.
\<close>

definition QuarterTurns :: "int \<Rightarrow> real FVector \<Rightarrow> real FVector" where
  "QuarterTurns k v =
     (if k mod 4 = 0 then v
      else if k mod 4 = 1 then \<lparr>X = - Y v, Y = X v, Z = Z v\<rparr>
      else if k mod 4 = 2 then \<lparr>X = - X v, Y = - Y v, Z = Z v\<rparr>
      else \<lparr>X = Y v, Y = - X v, Z = Z v\<rparr>)"

definition exact_platform :: "(real, int \<times> real FVector, int) Platform" where
  "exact_platform =
     \<lparr>FloorToInt = (\<lambda>v. word_of_int \<lfloor>v\<rfloor>),
      UIntToFloat = (\<lambda>w. real (unat w)),
      FloatLiteral = real_of_int,
      TransformPosition = (\<lambda>t v. FVector_plus (QuarterTurns (fst t) v) (snd t)),
      InverseTransformPosition = (\<lambda>t v. QuarterTurns (- fst t) (FVector_minus v (snd t))),
      GetRotation = fst,
      GetForwardVector = (\<lambda>k. QuarterTurns k \<lparr>X = 1, Y = 0, Z = 0\<rparr>),
      Rotator = (\<lambda>k. \<lparr>Pitch = 0, Yaw = 90 * real_of_int (k mod 4), Roll = 0\<rparr>),
      MakeQuat = (\<lambda>r. \<lfloor>Yaw r / 90\<rfloor>),
      DefaultVector = \<lparr>X = 0, Y = 0, Z = 0\<rparr>,
      DefaultTransform = (0, \<lparr>X = 0, Y = 0, Z = 0\<rparr>)\<rparr>"

text \<open>
  The grid of the specification's first scenario: two by two cells, one cell per unit,
  identity transform, no offset; the cell at (0, 0) is off-road, the others are road
  without a direction.
\<close>

definition plain_road :: "real FRoadMapPixelData" where
  "plain_road = \<lparr>bIsOffRoad = False, bHasDirection = False, Direction = \<lparr>X = 0, Y = 0, Z = 0\<rparr>\<rparr>"

definition off_road :: "real FRoadMapPixelData" where
  "off_road = \<lparr>bIsOffRoad = True, bHasDirection = False, Direction = \<lparr>X = 0, Y = 0, Z = 0\<rparr>\<rparr>"

definition grid2x2 :: "(real, int \<times> real FVector) URoadMap" where
  "grid2x2 =
     \<lparr>RoadMap = [off_road, plain_road, plain_road, plain_road],
      PixelsPerCentimeter = 1, Width = 2, Height = 2,
      WorldToMap = (0, \<lparr>X = 0, Y = 0, Z = 0\<rparr>), MapOffset = \<lparr>X = 0, Y = 0, Z = 0\<rparr>\<rparr>"

section \<open>An instance with binary32 arithmetic\<close>

text \<open>
  The finite values of IEEE 754 binary32 are the numbers \<open>m * 2^(s - 149)\<close> with
  \<open>|m| < 2^24\<close> and \<open>0 \<le> s\<close> (below \<open>2^128\<close> in size). Scaled by \<open>2^149\<close>
  they are integers, and the spacing of the values around \<open>x\<close> is \<open>2^s\<close> on that
  scale, where \<open>s\<close> is the number of bits of \<open>|x| * 2^149\<close> beyond 24.
  \<open>round_even\<close> rounds to the nearest integer, a tie to the even one, and
  \<open>round_binary32\<close> rounds to the nearest binary32 value in the same way (the default
  rounding mode). The upper end of the range is not modelled.
\<close>

definition round_even :: "real \<Rightarrow> int" where
  "round_even x =
     (let n = \<lfloor>x\<rfloor>; d = x - of_int n
      in if d < 1 / 2 then n else if 1 / 2 < d then n + 1 else if even n then n else n + 1)"

definition round_binary32 :: "real \<Rightarrow> real" where
  "round_binary32 x =
     (let s = nat (bitlen \<lfloor>\<bar>x\<bar> * 2 ^ 149\<rfloor> - 24)
      in of_int (round_even (x * 2 ^ 149 / 2 ^ s)) * 2 ^ s / 2 ^ 149)"

text \<open>
  A \<open>float\<close> is the real number it holds; each arithmetic operation computes exactly
  and rounds once, negation and comparison are exact. Infinities, NaN, overflow and the
  sign of zero are outside this instance: the examples computed on it never divide by
  zero and never leave the finite range.
\<close>

datatype binary32 = Binary32 (real_of: real)

instantiation binary32 :: "{zero,one,plus,minus,uminus,times,inverse,ord}"
begin

definition zero_binary32 :: binary32 where
  "zero_binary32 = Binary32 0"

definition one_binary32 :: binary32 where
  "one_binary32 = Binary32 1"

definition plus_binary32 :: "binary32 \<Rightarrow> binary32 \<Rightarrow> binary32" where
  "plus_binary32 a b = Binary32 (round_binary32 (real_of a + real_of b))"

definition minus_binary32 :: "binary32 \<Rightarrow> binary32 \<Rightarrow> binary32" where
  "minus_binary32 a b = Binary32 (round_binary32 (real_of a - real_of b))"

definition uminus_binary32 :: "binary32 \<Rightarrow> binary32" where
  "uminus_binary32 a = Binary32 (- real_of a)"

definition times_binary32 :: "binary32 \<Rightarrow> binary32 \<Rightarrow> binary32" where
  "times_binary32 a b = Binary32 (round_binary32 (real_of a * real_of b))"

definition divide_binary32 :: "binary32 \<Rightarrow> binary32 \<Rightarrow> binary32" where
  "divide_binary32 a b = Binary32 (round_binary32 (real_of a / real_of b))"

definition inverse_binary32 :: "binary32 \<Rightarrow> binary32" where
  "inverse_binary32 a = Binary32 (round_binary32 (1 / real_of a))"

definition less_binary32 :: "binary32 \<Rightarrow> binary32 \<Rightarrow> bool" where
  "less_binary32 a b \<longleftrightarrow> real_of a < real_of b"

definition less_eq_binary32 :: "binary32 \<Rightarrow> binary32 \<Rightarrow> bool" where
  "less_eq_binary32 a b \<longleftrightarrow> real_of a \<le> real_of b"

instance ..

end

text \<open>
  The platform on \<open>binary32\<close>. Its transforms are the translations (identity rotation,
  unit scale), for which the engine's \<open>TransformPosition\<close> is one rounded addition per
  component; the forward vector of the identity rotation is \<open>(1, 0, 0)\<close>.
\<close>

definition binary32_platform :: "(binary32, binary32 FVector, unit) Platform" where
  "binary32_platform =
     \<lparr>FloorToInt = (\<lambda>v. word_of_int \<lfloor>real_of v\<rfloor>),
      UIntToFloat = (\<lambda>w. Binary32 (round_binary32 (real (unat w)))),
      FloatLiteral = (\<lambda>i. Binary32 (round_binary32 (real_of_int i))),
      TransformPosition = (\<lambda>t v. FVector_plus v t),
      InverseTransformPosition = (\<lambda>t v. FVector_minus v t),
      GetRotation = (\<lambda>t. ()),
      GetForwardVector = (\<lambda>q. \<lparr>X = 1, Y = 0, Z = 0\<rparr>),
      Rotator = (\<lambda>q. \<lparr>Pitch = 0, Yaw = 0, Roll = 0\<rparr>),
      MakeQuat = (\<lambda>r. ()),
      DefaultVector = \<lparr>X = 0, Y = 0, Z = 0\<rparr>,
      DefaultTransform = \<lparr>X = 0, Y = 0, Z = 0\<rparr>\<rparr>"


text \<open>
  A grid of one cell, on the road, with the direction \<open>(1, 0, 0)\<close>: every location is
  clamped to that cell.
\<close>

definition lane_grid :: "(binary32, binary32 FVector) URoadMap" where
  "lane_grid =
     \<lparr>RoadMap = [\<lparr>bIsOffRoad = False, bHasDirection = True, Direction = \<lparr>X = 1, Y = 0, Z = 0\<rparr>\<rparr>],
      PixelsPerCentimeter = 1, Width = 1, Height = 1,
      WorldToMap = \<lparr>X = 0, Y = 0, Z = 0\<rparr>, MapOffset = \<lparr>X = 0, Y = 0, Z = 0\<rparr>\<rparr>"

text \<open>A cell on the road with a given direction, in binary32.\<close>

definition lane_cell :: "binary32 FVector \<Rightarrow> binary32 FRoadMapPixelData" where
  "lane_cell d = \<lparr>bIsOffRoad = False, bHasDirection = True, Direction = d\<rparr>"


text \<open>
  The direction of a yaw of about 0.02 degrees: \<open>X\<close> is the binary32 value next below
  1, which is the nearest one to the cosine, and \<open>Y\<close> is \<open>181 / 2^19\<close>, the sine.
\<close>

definition near_unit :: "binary32 FVector" where
  "near_unit =
     \<lparr>X = Binary32 (16777215 / 16777216), Y = Binary32 (181 / 524288), Z = Binary32 0\<rparr>"

section \<open>Properties\<close>

subsection \<open>Rounding to binary32\<close>

lemma round_even_of_int [simp]: "round_even (of_int k) = k"
  by (simp add: round_even_def)

lemma bitlen_eqI:
  assumes "2 ^ n \<le> k" "k < 2 ^ Suc n"
  shows "bitlen k = int n + 1"
proof (rule antisym)
  show "bitlen k \<le> int n + 1"
    using assms(2) by (simp add: bitlen_le_iff_power nat_add_distrib)
  show "int n + 1 \<le> bitlen k"
    using assms(1) by (simp add: bitlen_ge_iff_power nat_add_distrib)
qed

lemma round_binary32_eval:
  assumes "2 ^ (n + 23) \<le> \<bar>x\<bar> * 2 ^ 149" "\<bar>x\<bar> * 2 ^ 149 < 2 ^ (n + 24)"
  shows "round_binary32 x = of_int (round_even (x * 2 ^ 149 / 2 ^ n)) * 2 ^ n / 2 ^ 149"
proof -
  let ?k = "\<lfloor>\<bar>x\<bar> * 2 ^ 149\<rfloor>"
  have "2 ^ (n + 23) \<le> ?k"
    using assms(1) by (simp add: le_floor_iff)
  moreover have "?k < 2 ^ Suc (n + 23)"
  proof -
    have "n + 24 = Suc (n + 23)" by simp
    with assms(2) have "\<bar>x\<bar> * 2 ^ 149 < 2 ^ Suc (n + 23)"
      by (simp only:)
    then show ?thesis
      by (simp only: floor_less_iff of_int_power of_int_numeral)
  qed
  ultimately have "bitlen ?k = int (n + 23) + 1"
    by (rule bitlen_eqI)
  then have "nat (bitlen ?k - 24) = n"
    by simp
  then show ?thesis
    by (simp add: round_binary32_def)
qed

lemma round_binary32_zero [simp]: "round_binary32 0 = 0"
  by (simp add: round_binary32_def round_even_def)

lemma round_binary32_exact:
  assumes "\<bar>m\<bar> < 2 ^ 24"
  shows "round_binary32 (of_int m * 2 ^ j / 2 ^ 149) = of_int m * 2 ^ j / 2 ^ 149"
proof (cases "m = 0")
  case True
  then show ?thesis by simp
next
  case False
  let ?x = "of_int m * 2 ^ j / 2 ^ 149 :: real"
  have k: "\<lfloor>\<bar>?x\<bar> * 2 ^ 149\<rfloor> = \<bar>m\<bar> * 2 ^ j"
  proof -
    have "\<bar>?x\<bar> * 2 ^ 149 = of_int (\<bar>m\<bar> * 2 ^ j)"
      by (simp add: abs_mult)
    then show ?thesis
      by (simp only: floor_of_int)
  qed
  have "bitlen \<bar>m\<bar> \<le> 24"
    using assms by (simp add: bitlen_le_iff_power)
  moreover have "bitlen (\<bar>m\<bar> * 2 ^ j) = bitlen \<bar>m\<bar> + int j"
    using False by simp
  ultimately obtain s where s: "nat (bitlen \<lfloor>\<bar>?x\<bar> * 2 ^ 149\<rfloor> - 24) = s" and "s \<le> j"
    using k by auto
  then obtain d where d: "j = s + d"
    using le_Suc_ex by blast
  have "?x * 2 ^ 149 / 2 ^ s = of_int (m * 2 ^ d)"
    by (simp add: d power_add)
  then have "round_even (?x * 2 ^ 149 / 2 ^ s) = m * 2 ^ d"
    by (simp only: round_even_of_int)
  then show ?thesis
    using s by (simp add: round_binary32_def d power_add)
qed

lemma round_binary32_int:
  assumes "\<bar>k\<bar> \<le> 2 ^ 24"
  shows "round_binary32 (of_int k) = of_int k"
proof (cases "\<bar>k\<bar> = 2 ^ 24")
  case False
  with assms have "\<bar>k\<bar> < 2 ^ 24" by simp
  from round_binary32_exact [OF this, of 149] show ?thesis by simp
next
  case True
  then have "k = 2 ^ 23 * 2 \<or> k = - (2 ^ 23) * 2"
    by auto
  then show ?thesis
    using round_binary32_exact [of "2 ^ 23" 150] round_binary32_exact [of "- (2 ^ 23)" 150]
    by auto
qed

lemma round_binary32_half:
  assumes "\<bar>h\<bar> < 2 ^ 24"
  shows "round_binary32 (of_int h / 2) = of_int h / 2"
  using round_binary32_exact [OF assms, of 148] by simp

lemma round_binary32_saturate: "round_binary32 16777217 = 16777216"
  by (subst round_binary32_eval [of 150]) (simp_all add: round_even_def)

lemma round_binary32_quotient: "round_binary32 (16777216 / 16777218) = 16777214 / 16777216"
  by (subst round_binary32_eval [of 125]) (simp_all add: round_even_def)

lemmas binary32_ops =
  zero_binary32_def one_binary32_def plus_binary32_def minus_binary32_def uminus_binary32_def
  times_binary32_def divide_binary32_def less_binary32_def

lemma round_binary32_one [simp]: "round_binary32 1 = 1"
  using round_binary32_int [of 1] by simp

lemma round_even_nonpos: "x \<le> 0 \<Longrightarrow> round_even x \<le> 0"
proof -
  assume x: "x \<le> 0"
  show ?thesis
  proof (cases "x = 0")
    case True
    then show ?thesis by (simp add: round_even_def)
  next
    case False
    with x have "x < 0" by simp
    then have "\<lfloor>x\<rfloor> \<le> - 1"
      by (simp add: floor_le_iff)
    then show ?thesis
      by (simp add: round_even_def Let_def)
  qed
qed

lemma round_binary32_nonpos:
  assumes "x \<le> 0"
  shows "round_binary32 x \<le> 0"
proof -
  have "x * 2 ^ 149 / 2 ^ s \<le> 0" for s :: nat
    using assms by (simp add: divide_le_0_iff mult_le_0_iff)
  then have "round_even (x * 2 ^ 149 / 2 ^ s) \<le> 0" for s :: nat
    by (rule round_even_nonpos)
  then have "real_of_int (round_even (x * 2 ^ 149 / 2 ^ s)) \<le> 0" for s :: nat
    by simp
  then show ?thesis
    by (simp add: round_binary32_def Let_def divide_le_0_iff mult_le_0_iff)
qed

lemma round_binary32_255 [simp]: "round_binary32 255 = 255"
  using round_binary32_int [of 255] by simp

lemma round_binary32_2 [simp]: "round_binary32 2 = 2"
  using round_binary32_int [of 2] by simp


lemma round_even_error: "\<bar>of_int (round_even t) - t\<bar> \<le> 1 / 2"
proof -
  have "of_int \<lfloor>t\<rfloor> \<le> t" "t < of_int \<lfloor>t\<rfloor> + 1"
    by linarith+
  then show ?thesis
    by (auto simp: round_even_def Let_def)
qed

lemma round_even_nonneg: "0 \<le> t \<Longrightarrow> 0 \<le> round_even t"
proof -
  assume "0 \<le> t"
  then have "0 \<le> \<lfloor>t\<rfloor>"
    by simp
  then show ?thesis
    by (simp add: round_even_def Let_def)
qed

lemma round_binary32_nonneg:
  assumes "0 \<le> x"
  shows "0 \<le> round_binary32 x"
proof -
  have "0 \<le> x * 2 ^ 149 / 2 ^ s" for s :: nat
    using assms by simp
  then have "0 \<le> round_even (x * 2 ^ 149 / 2 ^ s)" for s :: nat
    by (rule round_even_nonneg)
  then have "0 \<le> real_of_int (round_even (x * 2 ^ 149 / 2 ^ s))" for s :: nat
    by simp
  then show ?thesis
    by (simp add: round_binary32_def Let_def)
qed

text \<open>
  The error of one rounding: half a unit in the last place, which is at most
  \<open>|x| / 2^24\<close> for a normal \<open>x\<close> and \<open>2^-150\<close> below the normal range.
\<close>

lemma round_binary32_error_scaled:
  fixes c :: real
  assumes c: "0 < c"
    and s: "s = 0 \<or> 2 ^ s * 2 ^ 23 \<le> \<bar>x\<bar> * c"
  shows "\<bar>of_int (round_even (x * c / 2 ^ s)) * 2 ^ s / c - x\<bar> \<le> \<bar>x\<bar> / 2 ^ 24 + 1 / (2 * c)"
proof -
  let ?t = "x * c / 2 ^ s"
  have "of_int (round_even ?t) * 2 ^ s / c - x = (of_int (round_even ?t) - ?t) * (2 ^ s / c)"
    using c by (simp add: field_simps)
  then have "\<bar>of_int (round_even ?t) * 2 ^ s / c - x\<bar> =
      \<bar>of_int (round_even ?t) - ?t\<bar> * (2 ^ s / c)"
    using c by (simp add: abs_mult)
  also have "\<dots> \<le> 1 / 2 * (2 ^ s / c)"
    using c by (intro mult_right_mono round_even_error) simp
  also have "\<dots> \<le> \<bar>x\<bar> / 2 ^ 24 + 1 / (2 * c)"
  proof (cases "s = 0")
    case True
    then show ?thesis by simp
  next
    case False
    with s have "2 ^ s * 2 ^ 23 \<le> \<bar>x\<bar> * c"
      by simp
    then have "2 ^ s * 2 ^ 23 / (2 ^ 24 * c) \<le> \<bar>x\<bar> * c / (2 ^ 24 * c)"
      using c by (intro divide_right_mono) simp_all
    then have "1 / 2 * (2 ^ s / c) \<le> \<bar>x\<bar> / 2 ^ 24"
      using c by simp
    moreover have "0 \<le> 1 / (2 * c)"
      using c by simp
    ultimately show ?thesis
      by linarith
  qed
  finally show ?thesis .
qed

lemma round_binary32_error:
  "\<bar>round_binary32 x - x\<bar> \<le> \<bar>x\<bar> / 2 ^ 24 + 1 / 2 ^ 150"
proof -
  define K where "K = \<lfloor>\<bar>x\<bar> * 2 ^ 149\<rfloor>"
  define s where "s = nat (bitlen K - 24)"
  have r: "round_binary32 x = of_int (round_even (x * 2 ^ 149 / 2 ^ s)) * 2 ^ s / 2 ^ 149"
    by (simp only: round_binary32_def K_def s_def Let_def)
  have "s = 0 \<or> 2 ^ s * 2 ^ 23 \<le> \<bar>x\<bar> * 2 ^ 149"
  proof (cases "s = 0")
    case True
    then show ?thesis by simp
  next
    case False
    then have b: "bitlen K = int s + 24"
      by (simp add: s_def)
    then have "bitlen K \<noteq> 0"
      by simp
    then have "0 < K"
      by (simp add: bitlen_eq_zero_iff)
    from bitlen_bounds [OF this] have "2 ^ nat (bitlen K - 1) \<le> K"
      by simp
    moreover have "nat (bitlen K - 1) = s + 23"
      using b by simp
    ultimately have "2 ^ (s + 23) \<le> K"
      by simp
    then have "(2 :: real) ^ (s + 23) \<le> of_int K"
      by (metis of_int_le_iff of_int_numeral of_int_power)
    also have "of_int K \<le> \<bar>x\<bar> * 2 ^ 149"
      unfolding K_def by (rule of_int_floor_le)
    finally have "(2 :: real) ^ (s + 23) \<le> \<bar>x\<bar> * 2 ^ 149" .
    then have "(2 :: real) ^ s * 2 ^ 23 \<le> \<bar>x\<bar> * 2 ^ 149"
      by (simp only: power_add)
    then show ?thesis
      by (rule disjI2)
  qed
  from round_binary32_error_scaled [OF _ this] have
    "\<bar>of_int (round_even (x * 2 ^ 149 / 2 ^ s)) * 2 ^ s / 2 ^ 149 - x\<bar> \<le>
       \<bar>x\<bar> / 2 ^ 24 + 1 / (2 * 2 ^ 149)"
    by simp
  moreover have "(2 :: real) * 2 ^ 149 = 2 ^ 150"
    by simp
  ultimately show ?thesis
    unfolding r by (simp only:)
qed

lemma round_binary32_near:
  "\<bar>round_binary32 x - x\<bar> \<le> (\<bar>x\<bar> + 1) / 16777216"
proof -
  have "(1 :: real) / 2 ^ 150 \<le> 1 / 2 ^ 24"
    by (intro divide_left_mono power_increasing) simp_all
  with round_binary32_error [of x] have "\<bar>round_binary32 x - x\<bar> \<le> \<bar>x\<bar> / 2 ^ 24 + 1 / 2 ^ 24"
    by linarith
  then show ?thesis
    by (simp add: add_divide_distrib)
qed

subsection \<open>The point query stays inside the grid\<close>

lemma uint_eq_sint:
  fixes w :: "32 word"
  assumes "0 \<le> sint w"
  shows "uint w = sint w"
proof -
  have "sint w < 2 ^ 31"
    using sint_lt [of w] by simp
  with assms show ?thesis
    by (simp add: uint_sint take_bit_int_eq_self)
qed

lemma Clamp_range:
  fixes W :: uint32
  assumes "W \<noteq> 0"
  shows "Clamp v 0 (W - 1) \<le> W - 1"
proof -
  have "v \<le> W - 1" if "\<not> v <s 0" and "v <s W - 1"
  proof -
    from that have v: "0 \<le> sint v" and lt: "sint v < sint (W - 1)"
      by (simp_all add: word_sless_alt)
    then have "uint v = sint v" "uint (W - 1) = sint (W - 1)"
      by (simp_all add: uint_eq_sint)
    with lt show ?thesis
      by (simp add: word_le_def)
  qed
  then show ?thesis
    by (auto simp: Clamp_def)
qed

lemma unat_minus_one_properly:
  fixes W :: uint32
  assumes "0 < unat W"
  shows "unat (W - 1) = unat W - 1"
  using assms by (simp add: unat_minus_one unat_gt_0)

lemma pixel_index_in_range:
  fixes x y W H :: uint32
  assumes "x \<le> W - 1" "y \<le> H - 1" "0 < unat W" "0 < unat H"
  shows "unat y * unat W + unat x < unat W * unat H"
proof -
  from assms have x: "unat x \<le> unat W - 1" and y: "unat y \<le> unat H - 1"
    by (simp_all add: word_le_nat_alt unat_minus_one_properly)
  have "unat y * unat W + unat x \<le> (unat H - 1) * unat W + (unat W - 1)"
    by (intro add_mono mult_le_mono1 x y)
  also have "\<dots> < unat W * unat H"
    using assms(3,4) by (cases "unat H"; cases "unat W") simp_all
  finally show ?thesis .
qed

text \<open>
  C2. On a valid grid the pixel computed from a world location has
  \<open>0 \<le> x \<le> Width - 1\<close> and \<open>0 \<le> y \<le> Height - 1\<close> (both are unsigned, so the
  lower bounds hold by type), the index \<open>y * Width + x\<close> is inside the cell array, and
  \<open>GetDataAt\<close> returns that cell rather than failing. The statement holds for every
  \<open>float\<close> type and every \<open>FloorToInt\<close>: whatever the position and whatever the
  floor of an unrepresentable value is, the clamp brings the index into range.
\<close>

theorem toGrid_in_range:
  assumes "IsValid m"
  shows "case toGrid P m WorldLocation of (x, y) \<Rightarrow>
           x \<le> Width m - 1 \<and> y \<le> Height m - 1 \<and>
           unat y * unat (Width m) + unat x < length (RoadMap m) \<and>
           GetDataAt P m WorldLocation = Inr (RoadMap m ! (unat y * unat (Width m) + unat x))"
proof -
  obtain x y where xy: "toGrid P m WorldLocation = (x, y)"
    by (cases "toGrid P m WorldLocation")
  from assms have W: "0 < unat (Width m)" and H: "0 < unat (Height m)"
    and len: "unat (Width m) * unat (Height m) = length (RoadMap m)"
    by (simp_all add: IsValid_def)
  from W H have "Width m \<noteq> 0" "Height m \<noteq> 0"
    by auto
  with xy have x: "x \<le> Width m - 1" and y: "y \<le> Height m - 1"
    by (auto simp: toGrid_def ClampFloatToUInt_def Let_def Clamp_range)
  have idx: "unat y * unat (Width m) + unat x < length (RoadMap m)"
    using pixel_index_in_range [OF x y W H] len by simp
  with assms xy x y show ?thesis
    by (simp add: GetDataAt_def GetDataAtPixel_def)
qed

lemma grid2x2_valid: "IsValid grid2x2"
  by (simp add: IsValid_def grid2x2_def)

lemma toGrid_example: "toGrid exact_platform grid2x2 \<lparr>X = 3 / 2, Y = 1 / 2, Z = 0\<rparr> = (1, 0)"
  by (simp add: toGrid_def exact_platform_def grid2x2_def ClampFloatToUInt_def Clamp_def
      FVector_plus_def FVector_minus_def QuarterTurns_def word_sless_alt)

theorem toGrid_in_range_witness:
  "IsValid grid2x2 \<and>
   toGrid exact_platform grid2x2 \<lparr>X = 3 / 2, Y = 1 / 2, Z = 0\<rparr> = (1, 0) \<and>
   GetDataAt exact_platform grid2x2 \<lparr>X = 3 / 2, Y = 1 / 2, Z = 0\<rparr> = Inr plain_road"
  using toGrid_in_range [OF grid2x2_valid, of exact_platform "\<lparr>X = 3 / 2, Y = 1 / 2, Z = 0\<rparr>"]
  by (simp add: grid2x2_valid toGrid_example) (simp add: grid2x2_def)

subsection \<open>The extent along Z\<close>

text \<open>
  C10. \<open>Intersect\<close> does not depend on the Z component of the box extent: a call
  with any other Z extent, on the same map with the same transform, the same X and Y
  extents and the same sampling density, has the same outcome (the same fractions and
  log, the same failure, or no return in both). The loops range over the X and Y extents
  and sample at local \<open>z = 0\<close>. The statement holds for every \<open>float\<close> type and
  every platform.
\<close>

theorem Intersect_ignores_extent_Z:
  "Intersect P m BoxTransform (BoxExtent\<lparr>Z := z\<rparr>) ChecksPerCentimeter =
   Intersect P m BoxTransform BoxExtent ChecksPerCentimeter"
  by (simp add: Intersect_def)

subsection \<open>Loops\<close>

lemma for_loop_exit: "\<not> v < Bound \<Longrightarrow> for_loop body Bound Step v st = Some (Inr st)"
  by (subst for_loop.simps) simp

lemma for_loop_step:
  "v < Bound \<Longrightarrow> body v st = Some (Inr st') \<Longrightarrow>
   for_loop body Bound Step v st = for_loop body Bound Step (v + Step) st'"
  by (subst for_loop.simps) simp

lemma for_loop_idle:
  assumes "\<And>v. body v st = Some (Inr st)"
    and "\<not> ((\<lambda>x. x + Step) ^^ n) v < Bound"
  shows "for_loop body Bound Step v st = Some (Inr st)"
  using assms(2)
proof (induction n arbitrary: v)
  case 0
  then show ?case by (simp add: for_loop_exit)
next
  case (Suc n)
  show ?case
  proof (cases "v < Bound")
    case False
    then show ?thesis by (simp add: for_loop_exit)
  next
    case True
    have "((\<lambda>x. x + Step) ^^ Suc n) v = ((\<lambda>x. x + Step) ^^ n) (v + Step)"
      using funpow_swap1 [of "\<lambda>x. x + Step" n v] by simp
    with Suc.prems have "\<not> ((\<lambda>x. x + Step) ^^ n) (v + Step) < Bound"
      by (simp del: funpow.simps)
    then have "for_loop body Bound Step (v + Step) st = Some (Inr st)"
      by (rule Suc.IH)
    with True assms(1) show ?thesis
      by (simp add: for_loop_step)
  qed
qed

lemma for_loop_diverges:
  fixes body :: "'f::{plus,ord} \<Rightarrow> 'st \<Rightarrow> (fatal + 'st) option"
  assumes body: "\<And>v st. \<exists>st'. body v st = Some (Inr st')"
    and stay: "\<And>v. v < Bound \<Longrightarrow> v + Step < Bound"
    and start: "v < Bound"
  shows "for_loop body Bound Step v st = None"
proof (rule ccontr)
  assume "for_loop body Bound Step v st \<noteq> None"
  then obtain r where r: "for_loop body Bound Step v st = Some r"
    by auto
  have "\<not> (body = body \<and> Bound = Bound \<and> Step = Step \<and> v < Bound)"
  proof (rule for_loop.raw_induct
      [where P = "\<lambda>b B s v st r. \<not> (b = body \<and> B = Bound \<and> s = Step \<and> v < Bound)", OF _ r])
    fix loop :: "('f \<Rightarrow> 'st \<Rightarrow> (fatal + 'st) option) \<Rightarrow> 'f \<Rightarrow> 'f \<Rightarrow> 'f \<Rightarrow> 'st \<Rightarrow>
        (fatal + 'st) option"
    fix b B s u st' and r' :: "fatal + 'st"
    assume IH: "\<And>b B s u st r. loop b B s u st = Some r \<Longrightarrow>
        \<not> (b = body \<and> B = Bound \<and> s = Step \<and> u < Bound)"
    assume eq: "(if u < B then
        (case b u st' of
           None \<Rightarrow> None
         | Some (Inl e) \<Rightarrow> Some (Inl e)
         | Some (Inr st'') \<Rightarrow> loop b B s (u + s) st'')
      else Some (Inr st')) = Some r'"
    show "\<not> (b = body \<and> B = Bound \<and> s = Step \<and> u < Bound)"
    proof
      assume a: "b = body \<and> B = Bound \<and> s = Step \<and> u < Bound"
      obtain st'' where "body u st' = Some (Inr st'')"
        using body by blast
      with a eq have "loop body Bound Step (u + Step) st'' = Some r'"
        by simp
      from IH [OF this] have "\<not> u + Step < Bound"
        by simp
      with stay a show False
        by blast
    qed
  qed
  with start show False
    by simp
qed

text \<open>A loop whose counter does not change, while it is below the bound, does not end.\<close>

lemma for_loop_stuck:
  fixes body :: "'f::{plus,ord} \<Rightarrow> 'st \<Rightarrow> (fatal + 'st) option"
  assumes body: "\<And>st. \<exists>st'. body v st = Some (Inr st')"
    and stuck: "v + Step = v"
    and start: "v < Bound"
  shows "for_loop body Bound Step v st = None"
proof (rule ccontr)
  assume "for_loop body Bound Step v st \<noteq> None"
  then obtain r where r: "for_loop body Bound Step v st = Some r"
    by auto
  have "\<not> (body = body \<and> Bound = Bound \<and> Step = Step \<and> v = v)"
  proof (rule for_loop.raw_induct
      [where P = "\<lambda>b B s u st r. \<not> (b = body \<and> B = Bound \<and> s = Step \<and> u = v)", OF _ r])
    fix loop :: "('f \<Rightarrow> 'st \<Rightarrow> (fatal + 'st) option) \<Rightarrow> 'f \<Rightarrow> 'f \<Rightarrow> 'f \<Rightarrow> 'st \<Rightarrow>
        (fatal + 'st) option"
    fix b B s u st' and r' :: "fatal + 'st"
    assume IH: "\<And>b B s u st r. loop b B s u st = Some r \<Longrightarrow>
        \<not> (b = body \<and> B = Bound \<and> s = Step \<and> u = v)"
    assume eq: "(if u < B then
        (case b u st' of
           None \<Rightarrow> None
         | Some (Inl e) \<Rightarrow> Some (Inl e)
         | Some (Inr st'') \<Rightarrow> loop b B s (u + s) st'')
      else Some (Inr st')) = Some r'"
    show "\<not> (b = body \<and> B = Bound \<and> s = Step \<and> u = v)"
    proof
      assume a: "b = body \<and> B = Bound \<and> s = Step \<and> u = v"
      obtain st'' where "body v st' = Some (Inr st'')"
        using body by blast
      with a eq start stuck have "loop body Bound Step v st'' = Some r'"
        by simp
      from IH [OF this] show False
        by simp
    qed
  qed
  then show False
    by simp
qed

subsection \<open>A query that takes no sample\<close>

text \<open>
  \<open>Intersect\<close> takes no sample exactly when no pair \<open>(x, y)\<close> passes both loop
  guards, that is when the first \<open>x\<close> fails the outer guard or the first \<open>y\<close> fails
  the inner one. If in addition the outer counter leaves its range after some number
  \<open>n\<close> of steps, the call returns \<open>{0, 0}\<close> with the warning in the log, whatever
  the map is, for every \<open>float\<close> type and every platform.
\<close>

lemma Intersect_no_sample_returns:
  assumes "\<not> (- X BoxExtent < X BoxExtent) \<or> \<not> (- Y BoxExtent < Y BoxExtent)"
    and "\<not> ((\<lambda>x. x + 1 / ChecksPerCentimeter) ^^ n) (- X BoxExtent) < X BoxExtent"
  shows "Intersect P m BoxTransform BoxExtent ChecksPerCentimeter =
           Some (Inr (\<lparr>OffRoad = 0, OppositeLane = 0\<rparr>, [zero_checks]))"
proof -
  let ?inner = "\<lambda>x. for_loop
      (\<lambda>y st. Some (Intersect_check P m BoxTransform
         (GetForwardVector P (GetRotation P BoxTransform)) x y st))
      (Y BoxExtent) (1 / ChecksPerCentimeter) (- Y BoxExtent)"
  let ?st = "(0 :: uint32, \<lparr>OffRoad = 0 :: 'a, OppositeLane = 0\<rparr>)"
  have "for_loop ?inner (X BoxExtent) (1 / ChecksPerCentimeter) (- X BoxExtent) ?st =
          Some (Inr ?st)"
  proof (cases "- X BoxExtent < X BoxExtent")
    case False
    then show ?thesis by (rule for_loop_exit)
  next
    case True
    with assms(1) have "\<not> (- Y BoxExtent < Y BoxExtent)"
      by simp
    then have "\<And>x. ?inner x ?st = Some (Inr ?st)"
      by (rule for_loop_exit)
    then show ?thesis
      using assms(2) by (rule for_loop_idle)
  qed
  then show ?thesis
    by (simp add: Intersect_def)
qed

lemma round_binary32_stuck: "round_binary32 (- 16777216 + 1 / 2) = - 16777216"
  by (subst round_binary32_eval [of 149]) (simp_all add: round_even_def)

lemma binary32_half: "(1 :: binary32) / Binary32 2 = Binary32 (1 / 2)"
  using round_binary32_half [of 1]
  by (simp add: divide_binary32_def one_binary32_def)

text \<open>
  C5 fails on the code: a query that takes no sample need not return \<open>{0, 0}\<close> and
  the warning, because it need not return. With a zero extent along Y the inner loop
  ends at once for every \<open>x\<close> and leaves the state as it was, so no sample is taken;
  whether the call returns is then up to the outer loop, and nothing in the code makes it
  end. In binary32, with the extent \<open>(2^24, 0, 0)\<close> and the sampling density 2, the
  step is \<open>0.5\<close> and the counter starts at \<open>-2^24\<close>; \<open>-2^24 + 0.5\<close> lies
  halfway between the neighbouring values \<open>-2^24\<close> and \<open>-2^24 + 1\<close> and rounds to
  the even one, \<open>-2^24\<close>, so the counter never moves. With the density \<open>-1\<close> and
  the extent \<open>(1, 0, 0)\<close> the counter moves away from its bound, in exact arithmetic
  too. Either call never returns, on every map and for every box transform.
\<close>

theorem Intersect_no_sample_never_returns:
  "for_loop (\<lambda>y st. Some (Intersect_check binary32_platform m T D x y st))
     (Y \<lparr>X = Binary32 16777216, Y = 0 :: binary32, Z = 0\<rparr>) (1 / Binary32 2)
     (- Y \<lparr>X = Binary32 16777216, Y = 0 :: binary32, Z = 0\<rparr>) st = Some (Inr st) \<and>
   Intersect binary32_platform m T \<lparr>X = Binary32 16777216, Y = 0, Z = 0\<rparr> (Binary32 2) = None \<and>
   for_loop (\<lambda>y st. Some (Intersect_check exact_platform m' T' D' x' y st))
     (Y \<lparr>X = 1 :: real, Y = 0, Z = 0\<rparr>) (1 / (- 1))
     (- Y \<lparr>X = 1 :: real, Y = 0, Z = 0\<rparr>) st' = Some (Inr st') \<and>
   Intersect exact_platform m' T' \<lparr>X = 1, Y = 0, Z = 0\<rparr> (- 1) = None"
proof (intro conjI)
  let ?P = binary32_platform
  let ?inner = "\<lambda>x. for_loop
      (\<lambda>y st. Some (Intersect_check ?P m T (GetForwardVector ?P (GetRotation ?P T)) x y st))
      (0 :: binary32) (Binary32 (1 / 2)) (- 0)"
  have idle: "for_loop body (0 :: binary32) s (- 0) st = Some (Inr st)" for body s
    and st :: "uint32 \<times> binary32 FRoadMapIntersectionResult"
    by (rule for_loop_exit) (simp add: binary32_ops)
  show "for_loop (\<lambda>y st. Some (Intersect_check binary32_platform m T D x y st))
     (Y \<lparr>X = Binary32 16777216, Y = 0 :: binary32, Z = 0\<rparr>) (1 / Binary32 2)
     (- Y \<lparr>X = Binary32 16777216, Y = 0 :: binary32, Z = 0\<rparr>) st = Some (Inr st)"
    by (simp add: idle)
  have "for_loop ?inner (Binary32 16777216) (Binary32 (1 / 2)) (Binary32 (- 16777216))
      (0, \<lparr>OffRoad = 0, OppositeLane = 0\<rparr>) = None"
  proof (rule for_loop_stuck)
    show "\<exists>st'. ?inner (Binary32 (- 16777216)) st = Some (Inr st')" for st
      by (simp add: idle)
    show "Binary32 (- 16777216) + Binary32 (1 / 2) = Binary32 (- 16777216)"
      using round_binary32_stuck by (simp add: plus_binary32_def)
    show "Binary32 (- 16777216) < Binary32 16777216"
      by (simp add: less_binary32_def)
  qed
  then show "Intersect ?P m T \<lparr>X = Binary32 16777216, Y = 0, Z = 0\<rparr> (Binary32 2) = None"
    by (simp add: Intersect_def binary32_half uminus_binary32_def)
next
  let ?P = exact_platform
  let ?inner = "\<lambda>x. for_loop
      (\<lambda>y st. Some (Intersect_check ?P m' T' (GetForwardVector ?P (GetRotation ?P T')) x y st))
      (0 :: real) (- 1) (- 0)"
  have idle: "for_loop body (0 :: real) s (- 0) st = Some (Inr st)" for body s
    and st :: "uint32 \<times> real FRoadMapIntersectionResult"
    by (rule for_loop_exit) simp
  show "for_loop (\<lambda>y st. Some (Intersect_check exact_platform m' T' D' x' y st))
     (Y \<lparr>X = 1 :: real, Y = 0, Z = 0\<rparr>) (1 / (- 1))
     (- Y \<lparr>X = 1 :: real, Y = 0, Z = 0\<rparr>) st' = Some (Inr st')"
    using idle by simp
  have "for_loop ?inner 1 (- 1) (- 1) (0, \<lparr>OffRoad = 0, OppositeLane = 0\<rparr>) = None"
    by (rule for_loop_diverges) (use idle in simp_all)
  then show "Intersect ?P m' T' \<lparr>X = 1, Y = 0, Z = 0\<rparr> (- 1) = None"
    by (simp add: Intersect_def)
qed

subsection \<open>The direction that \<open>AppendPixel\<close> records\<close>

text \<open>
  C7. With the tag \<open>RoadTwoLanes_LaneLeft\<close>, \<open>AppendPixel\<close> appends one cell that
  is on the road and has a direction: the forward vector of the placement's rotation
  with \<open>180\<close> added to its yaw. For each of the six tags that carry a direction, the
  direction recorded with \<open>bInvertDirection = true\<close> is the negation of the direction
  recorded with \<open>false\<close>, for the same tag, transform and map. The code multiplies by
  \<open>-1.0f\<close>; that this negates is the one fact of arithmetic assumed of \<open>float\<close>.
\<close>

theorem AppendPixel_direction:
  fixes P :: "('f::{one,plus,uminus,times}, 't, 'q) Platform"
  assumes "\<forall>x :: 'f. x * (- 1) = - x"
    and "Tag \<in> {RoadTwoLanes_LaneRight, RoadTwoLanes_LaneLeft, Road90DegTurn_Lane0,
                 Road90DegTurn_Lane1, Road90DegTurn_Lane2, Road90DegTurn_Lane3}"
  shows "AppendPixel P RoadTwoLanes_LaneLeft T False m =
           m\<lparr>RoadMap := RoadMap m @
              [\<lparr>bIsOffRoad = False, bHasDirection = True,
                Direction =
                  GetForwardVector P
                    (MakeQuat P ((Rotator P (GetRotation P T))
                       \<lparr>Yaw := Yaw (Rotator P (GetRotation P T)) + FloatLiteral P 180\<rparr>))\<rparr>]\<rparr> \<and>
         Direction (last (RoadMap (AppendPixel P Tag T True m))) =
           FVector_neg (Direction (last (RoadMap (AppendPixel P Tag T False m))))"
  using assms
  by (auto simp: AppendPixel_def AppendEmptyPixel_def Let_def FVector_scale_def FVector_neg_def)

theorem AppendPixel_direction_witness:
  "(\<forall>x :: real. x * (- 1) = - x) \<and>
   Direction (last (RoadMap (AppendPixel exact_platform RoadTwoLanes_LaneLeft
      (0, \<lparr>X = 0, Y = 0, Z = 0\<rparr>) False grid2x2))) = \<lparr>X = - 1, Y = 0, Z = 0\<rparr> \<and>
   Direction (last (RoadMap (AppendPixel exact_platform RoadTwoLanes_LaneLeft
      (0, \<lparr>X = 0, Y = 0, Z = 0\<rparr>) True grid2x2))) = \<lparr>X = 1, Y = 0, Z = 0\<rparr>"
proof -
  have neg: "\<forall>x :: real. x * (- 1) = - x"
    by simp
  have tag: "RoadTwoLanes_LaneLeft \<in> {RoadTwoLanes_LaneRight, RoadTwoLanes_LaneLeft,
      Road90DegTurn_Lane0, Road90DegTurn_Lane1, Road90DegTurn_Lane2, Road90DegTurn_Lane3}"
    by simp
  have d: "GetForwardVector exact_platform
             (MakeQuat exact_platform ((Rotator exact_platform (GetRotation exact_platform (0, \<lparr>X = 0, Y = 0, Z = 0\<rparr>)))
                \<lparr>Yaw := Yaw (Rotator exact_platform (GetRotation exact_platform (0, \<lparr>X = 0, Y = 0, Z = 0\<rparr>))) +
                   FloatLiteral exact_platform 180\<rparr>)) = \<lparr>X = - 1, Y = 0, Z = 0\<rparr>"
    by (simp add: exact_platform_def QuarterTurns_def)
  from AppendPixel_direction [OF neg tag, of exact_platform "(0, \<lparr>X = 0, Y = 0, Z = 0\<rparr>)" grid2x2] d neg
  show ?thesis
    by (simp add: FVector_neg_def)
qed


subsection \<open>Cells, \<open>Width\<close> and \<open>Height\<close>\<close>

lemma AppendPixel_cells:
  "\<exists>d. RoadMap (AppendPixel P Tag T invert m) = RoadMap m @ [d] \<and> \<not> bIsOffRoad d"
  by (cases Tag) (simp_all add: AppendPixel_def AppendEmptyPixel_def Let_def)

lemma AppendPixel_dims:
  "Width (AppendPixel P Tag T invert m) = Width m \<and> Height (AppendPixel P Tag T invert m) = Height m"
  by (cases Tag) (simp_all add: AppendPixel_def AppendEmptyPixel_def Let_def)

lemma apply_operation_length:
  "length (RoadMap (apply_operation P m op)) = length (RoadMap m) + (if is_append op then 1 else 0)"
proof (cases op)
  case (DoAppendPixel Tag t invert)
  obtain d where "RoadMap (AppendPixel P Tag t invert m) = RoadMap m @ [d]"
    using AppendPixel_cells [of P Tag t invert m] by auto
  with DoAppendPixel show ?thesis by simp
qed (simp_all add: Set_def AppendEmptyPixel_def)

lemma apply_operation_dims:
  "(Width (apply_operation P m op), Height (apply_operation P m op)) =
     dimensions (Width m, Height m) op"
  by (cases op) (simp_all add: Set_def AppendEmptyPixel_def AppendPixel_dims)

lemma foldl_length:
  "length (RoadMap (foldl (apply_operation P) m ops)) = length (RoadMap m) + length (filter is_append ops)"
  by (induction ops arbitrary: m) (simp_all add: apply_operation_length)

lemma foldl_dims:
  "(Width (foldl (apply_operation P) m ops), Height (foldl (apply_operation P) m ops)) =
     foldl dimensions (Width m, Height m) ops"
proof (induction ops arbitrary: m)
  case Nil
  show ?case by simp
next
  case (Cons op ops)
  show ?case
    using Cons.IH [of "apply_operation P m op"] apply_operation_dims [of P m op]
    by simp
qed

lemma ctor_fields:
  "RoadMap (URoadMap_ctor P) = [empty_pixel P]"
  "Width (URoadMap_ctor P) = 1" "Height (URoadMap_ctor P) = 1"
  "PixelsPerCentimeter (URoadMap_ctor P) = 1"
  by (simp_all add: URoadMap_ctor_def AppendEmptyPixel_def empty_pixel_def)

lemma ctor_valid: "IsValid (URoadMap_ctor P)"
  by (simp add: IsValid_def ctor_fields)

lemma ctor_query: "GetDataAt P (URoadMap_ctor P) WorldLocation = Inr (empty_pixel P)"
proof -
  obtain x y where xy: "toGrid P (URoadMap_ctor P) WorldLocation = (x, y)"
    by (cases "toGrid P (URoadMap_ctor P) WorldLocation")
  then have "x = 0" "y = 0"
    by (auto simp: toGrid_def Let_def ClampFloatToUInt_def Clamp_def ctor_fields)
  with xy show ?thesis
    by (simp add: GetDataAt_def GetDataAtPixel_def ctor_valid ctor_fields)
qed

text \<open>
  C8, as the code has it. A freshly constructed map is valid, with \<open>Width = Height = 1\<close>
  and one off-road cell, and every point query on it returns that cell. After any
  sequence of operations the number of cells is one plus the number of appends, and
  \<open>Width\<close> and \<open>Height\<close> are those of the last \<open>Set\<close> (1 and 1 when there was
  none): \<open>Set\<close> does not touch the cells and an append does not touch the dimensions.
  The number of cells is \<open>Width * Height\<close> in the states where the two agree; keeping
  them in step is left to the caller, and the queries check \<open>IsValid\<close>.
\<close>

theorem cells_and_dimensions:
  "IsValid (URoadMap_ctor P) \<and>
   Width (URoadMap_ctor P) = 1 \<and> Height (URoadMap_ctor P) = 1 \<and>
   RoadMap (URoadMap_ctor P) = [empty_pixel P] \<and>
   GetDataAt P (URoadMap_ctor P) WorldLocation = Inr (empty_pixel P) \<and>
   length (RoadMap (run P ops)) = 1 + length (filter is_append ops) \<and>
   (Width (run P ops), Height (run P ops)) = foldl dimensions (1, 1) ops"
  using foldl_length [of P "URoadMap_ctor P" ops] foldl_dims [of P "URoadMap_ctor P" ops]
  by (simp add: ctor_valid ctor_query ctor_fields run_def)

text \<open>
  C8, as stated, fails: after the constructor and \<open>Set(2, 2, ...)\<close> the map has one
  cell, and \<open>Width * Height\<close> is four.
\<close>

theorem Set_breaks_cell_count:
  "length (RoadMap (run exact_platform [DoSet 2 2 1 (0, \<lparr>X = 0, Y = 0, Z = 0\<rparr>) \<lparr>X = 0, Y = 0, Z = 0\<rparr>])) \<noteq>
   unat (Width (run exact_platform [DoSet 2 2 1 (0, \<lparr>X = 0, Y = 0, Z = 0\<rparr>) \<lparr>X = 0, Y = 0, Z = 0\<rparr>])) *
   unat (Height (run exact_platform [DoSet 2 2 1 (0, \<lparr>X = 0, Y = 0, Z = 0\<rparr>) \<lparr>X = 0, Y = 0, Z = 0\<rparr>]))"
  by (simp add: run_def Set_def ctor_fields)


subsection \<open>The colour of a cell\<close>

lemma uint_channel:
  "uint (ucast (word_of_int k :: int32) :: uint8) = k mod 256"
  by (simp add: uint_word_of_int unsigned_ucast_eq take_bit_eq_mod mod_mod_cancel)

lemma ToColor_binary32:
  "ToColor binary32_platform c =
     word_of_int \<lfloor>round_binary32 (round_binary32 (255 * round_binary32 (real_of c + 1)) / 2)\<rfloor>"
  by (simp add: ToColor_def binary32_platform_def binary32_ops)

text \<open>
  What binary32 computes for \<open>255 * u / 2\<close> with \<open>u\<close> the rounded \<open>c + 1\<close>,
  for \<open>u\<close> between 0 and 2: three roundings, each with a relative error of at most
  \<open>2^-24\<close>, so the result is off by less than \<open>2^-14\<close>.
\<close>

lemma channel_value:
  fixes u :: real
  assumes "0 \<le> u" "u \<le> 2"
  defines "d \<equiv> round_binary32 (round_binary32 (255 * round_binary32 u) / 2)"
  shows "0 \<le> d" and "d < 256" and "\<bar>d - 255 * u / 2\<bar> < 1"
proof -
  define a where "a = round_binary32 u"
  define b where "b = round_binary32 (255 * a)"
  have d: "d = round_binary32 (b / 2)"
    by (simp add: d_def a_def b_def)
  have a0: "0 \<le> a"
    unfolding a_def using assms(1) by (rule round_binary32_nonneg)
  have b0: "0 \<le> b"
    unfolding b_def using a0 by (intro round_binary32_nonneg) simp
  show d0: "0 \<le> d"
    unfolding d using b0 by (intro round_binary32_nonneg) simp
  have "\<bar>a - u\<bar> \<le> (\<bar>u\<bar> + 1) / 16777216"
    unfolding a_def by (rule round_binary32_near)
  with assms(1,2) have ea: "\<bar>a - u\<bar> \<le> 3 / 16777216"
    by simp
  with assms(2) have a3: "a \<le> 3"
    by linarith
  have "\<bar>b - 255 * a\<bar> \<le> (\<bar>255 * a\<bar> + 1) / 16777216"
    unfolding b_def by (rule round_binary32_near)
  with a0 a3 have eb: "\<bar>b - 255 * a\<bar> \<le> 766 / 16777216"
    by simp
  with ea have eb': "\<bar>b - 255 * u\<bar> \<le> 1531 / 16777216"
    by linarith
  with assms(2) have b5: "b \<le> 511"
    by linarith
  have "\<bar>d - b / 2\<bar> \<le> (\<bar>b / 2\<bar> + 1) / 16777216"
    unfolding d by (rule round_binary32_near)
  with b0 b5 have ed: "\<bar>d - b / 2\<bar> \<le> 257 / 16777216"
    by simp
  with eb' have e: "\<bar>d - 255 * u / 2\<bar> \<le> 1023 / 16777216"
    by linarith
  then show "\<bar>d - 255 * u / 2\<bar> < 1"
    by linarith
  from e assms(2) show "d < 256"
    by linarith
qed

lemma floor_near:
  fixes d e :: real
  assumes "\<bar>d - e\<bar> < 1"
  shows "\<bar>\<lfloor>d\<rfloor> - \<lfloor>e\<rfloor>\<bar> \<le> 1"
  using assms by linarith

lemma channel_binary32:
  assumes "- 1 \<le> real_of c" "real_of c \<le> 1"
  shows "uint (ucast (ToColor binary32_platform c) :: uint8) =
           \<lfloor>real_of (FloatLiteral binary32_platform 255 * (c + 1) /
              FloatLiteral binary32_platform 2)\<rfloor>"
    and "\<bar>uint (ucast (ToColor binary32_platform c) :: uint8) -
           \<lfloor>255 * (real_of c + 1) / 2\<rfloor>\<bar> \<le> 1"
proof -
  define d where "d = round_binary32 (round_binary32 (255 * round_binary32 (real_of c + 1)) / 2)"
  have u: "0 \<le> real_of c + 1" "real_of c + 1 \<le> 2"
    using assms by simp_all
  note v = channel_value [OF u, folded d_def]
  from v(1,2) have "0 \<le> \<lfloor>d\<rfloor>" "\<lfloor>d\<rfloor> < 256"
    by (simp_all add: floor_less_iff)
  then have m: "\<lfloor>d\<rfloor> mod 256 = \<lfloor>d\<rfloor>"
    by simp
  have t: "uint (ucast (ToColor binary32_platform c) :: uint8) = \<lfloor>d\<rfloor>"
    unfolding ToColor_binary32 uint_channel d_def [symmetric] by (rule m)
  have "real_of (FloatLiteral binary32_platform 255 * (c + 1) /
      FloatLiteral binary32_platform 2) = d"
    by (simp add: binary32_platform_def binary32_ops d_def)
  with t show "uint (ucast (ToColor binary32_platform c) :: uint8) =
           \<lfloor>real_of (FloatLiteral binary32_platform 255 * (c + 1) /
              FloatLiteral binary32_platform 2)\<rfloor>"
    by (simp only:)
  from v(3) have "\<bar>\<lfloor>d\<rfloor> - \<lfloor>255 * (real_of c + 1) / 2\<rfloor>\<bar> \<le> 1"
    by (rule floor_near)
  with t show "\<bar>uint (ucast (ToColor binary32_platform c) :: uint8) -
           \<lfloor>255 * (real_of c + 1) / 2\<rfloor>\<bar> \<le> 1"
    by (simp only:)
qed

text \<open>
  C6, as the code has it. \<open>Encode\<close> is a function of the cell alone. An off-road cell
  is opaque black whatever its direction field holds, and a road cell without a direction
  is opaque white. For a road cell with a direction, each channel is a \<open>uint8\<close>: the
  low eight bits of the \<open>int32\<close> that \<open>FloorToInt\<close> returns for
  \<open>255 * (component + 1) / 2\<close>, and alpha is 255. So far the statement holds on every
  platform. The code evaluates \<open>255 * (component + 1) / 2\<close> in \<open>float\<close>, rounding
  at each operation. In binary32, for a component in \<open>[-1, 1]\<close>, the channel is the
  floor of that rounded value, which lies in \<open>[0, 255]\<close> so that no bit is cut, and it
  differs from \<open>floor(255 * (component + 1) / 2)\<close> of the exact formula by at most 1.
\<close>

theorem Encode_colours:
  "(bIsOffRoad Data \<longrightarrow> Encode P Data = \<lparr>R = 0, G = 0, B = 0, A = 255\<rparr>) \<and>
   (\<not> bIsOffRoad Data \<and> \<not> bHasDirection Data \<longrightarrow>
      Encode P Data = \<lparr>R = 255, G = 255, B = 255, A = 255\<rparr>) \<and>
   (\<not> bIsOffRoad Data \<and> bHasDirection Data \<longrightarrow>
      Encode P Data =
        \<lparr>R = ucast (FloorToInt P (FloatLiteral P 255 * (X (Direction Data) + 1) / FloatLiteral P 2)),
         G = ucast (FloorToInt P (FloatLiteral P 255 * (Y (Direction Data) + 1) / FloatLiteral P 2)),
         B = ucast (FloorToInt P (FloatLiteral P 255 * (Z (Direction Data) + 1) / FloatLiteral P 2)),
         A = 255\<rparr>) \<and>
   (\<not> bIsOffRoad D \<and> bHasDirection D \<longrightarrow>
      (- 1 \<le> real_of (X (Direction D)) \<and> real_of (X (Direction D)) \<le> 1 \<longrightarrow>
         uint (R (Encode binary32_platform D)) =
           \<lfloor>real_of (FloatLiteral binary32_platform 255 * (X (Direction D) + 1) /
              FloatLiteral binary32_platform 2)\<rfloor> \<and>
         \<bar>uint (R (Encode binary32_platform D)) -
            \<lfloor>255 * (real_of (X (Direction D)) + 1) / 2\<rfloor>\<bar> \<le> 1) \<and>
      (- 1 \<le> real_of (Y (Direction D)) \<and> real_of (Y (Direction D)) \<le> 1 \<longrightarrow>
         uint (G (Encode binary32_platform D)) =
           \<lfloor>real_of (FloatLiteral binary32_platform 255 * (Y (Direction D) + 1) /
              FloatLiteral binary32_platform 2)\<rfloor> \<and>
         \<bar>uint (G (Encode binary32_platform D)) -
            \<lfloor>255 * (real_of (Y (Direction D)) + 1) / 2\<rfloor>\<bar> \<le> 1) \<and>
      (- 1 \<le> real_of (Z (Direction D)) \<and> real_of (Z (Direction D)) \<le> 1 \<longrightarrow>
         uint (B (Encode binary32_platform D)) =
           \<lfloor>real_of (FloatLiteral binary32_platform 255 * (Z (Direction D) + 1) /
              FloatLiteral binary32_platform 2)\<rfloor> \<and>
         \<bar>uint (B (Encode binary32_platform D)) -
            \<lfloor>255 * (real_of (Z (Direction D)) + 1) / 2\<rfloor>\<bar> \<le> 1))"
proof (intro conjI)
  show "bIsOffRoad Data \<longrightarrow> Encode P Data = \<lparr>R = 0, G = 0, B = 0, A = 255\<rparr>"
    by (simp add: Encode_def)
  show "\<not> bIsOffRoad Data \<and> \<not> bHasDirection Data \<longrightarrow>
      Encode P Data = \<lparr>R = 255, G = 255, B = 255, A = 255\<rparr>"
    by (simp add: Encode_def)
  show "\<not> bIsOffRoad Data \<and> bHasDirection Data \<longrightarrow>
      Encode P Data =
        \<lparr>R = ucast (FloorToInt P (FloatLiteral P 255 * (X (Direction Data) + 1) / FloatLiteral P 2)),
         G = ucast (FloorToInt P (FloatLiteral P 255 * (Y (Direction Data) + 1) / FloatLiteral P 2)),
         B = ucast (FloorToInt P (FloatLiteral P 255 * (Z (Direction Data) + 1) / FloatLiteral P 2)),
         A = 255\<rparr>"
    by (simp add: Encode_def ToColor_def)
  show "\<not> bIsOffRoad D \<and> bHasDirection D \<longrightarrow>
      (- 1 \<le> real_of (X (Direction D)) \<and> real_of (X (Direction D)) \<le> 1 \<longrightarrow>
         uint (R (Encode binary32_platform D)) =
           \<lfloor>real_of (FloatLiteral binary32_platform 255 * (X (Direction D) + 1) /
              FloatLiteral binary32_platform 2)\<rfloor> \<and>
         \<bar>uint (R (Encode binary32_platform D)) -
            \<lfloor>255 * (real_of (X (Direction D)) + 1) / 2\<rfloor>\<bar> \<le> 1) \<and>
      (- 1 \<le> real_of (Y (Direction D)) \<and> real_of (Y (Direction D)) \<le> 1 \<longrightarrow>
         uint (G (Encode binary32_platform D)) =
           \<lfloor>real_of (FloatLiteral binary32_platform 255 * (Y (Direction D) + 1) /
              FloatLiteral binary32_platform 2)\<rfloor> \<and>
         \<bar>uint (G (Encode binary32_platform D)) -
            \<lfloor>255 * (real_of (Y (Direction D)) + 1) / 2\<rfloor>\<bar> \<le> 1) \<and>
      (- 1 \<le> real_of (Z (Direction D)) \<and> real_of (Z (Direction D)) \<le> 1 \<longrightarrow>
         uint (B (Encode binary32_platform D)) =
           \<lfloor>real_of (FloatLiteral binary32_platform 255 * (Z (Direction D) + 1) /
              FloatLiteral binary32_platform 2)\<rfloor> \<and>
         \<bar>uint (B (Encode binary32_platform D)) -
            \<lfloor>255 * (real_of (Z (Direction D)) + 1) / 2\<rfloor>\<bar> \<le> 1)"
    using channel_binary32 [of "X (Direction D)"] channel_binary32 [of "Y (Direction D)"]
      channel_binary32 [of "Z (Direction D)"]
    by (auto simp: Encode_def)
qed

theorem Encode_colours_witness:
  "Encode binary32_platform
     \<lparr>bIsOffRoad = True, bHasDirection = True, Direction = \<lparr>X = 1, Y = 0, Z = - 1\<rparr>\<rparr> =
     \<lparr>R = 0, G = 0, B = 0, A = 255\<rparr> \<and>
   Encode binary32_platform
     \<lparr>bIsOffRoad = False, bHasDirection = False, Direction = \<lparr>X = 1, Y = 0, Z = - 1\<rparr>\<rparr> =
     \<lparr>R = 255, G = 255, B = 255, A = 255\<rparr> \<and>
   uint (R (Encode binary32_platform (lane_cell \<lparr>X = 1, Y = 0, Z = - 1\<rparr>))) = 255 \<and>
   uint (G (Encode binary32_platform (lane_cell \<lparr>X = 1, Y = 0, Z = - 1\<rparr>))) = 127 \<and>
   uint (B (Encode binary32_platform (lane_cell \<lparr>X = 1, Y = 0, Z = - 1\<rparr>))) = 0 \<and>
   A (Encode binary32_platform (lane_cell \<lparr>X = 1, Y = 0, Z = - 1\<rparr>)) = 255"
proof -
  have r: "round_binary32 510 = 510" "round_binary32 (255 / 2) = 255 / 2"
    using round_binary32_int [of 510] round_binary32_half [of 255] by simp_all
  have v: "real_of (FloatLiteral binary32_platform 255 * ((1 :: binary32) + 1) /
        FloatLiteral binary32_platform 2) = 255"
    "real_of (FloatLiteral binary32_platform 255 * ((0 :: binary32) + 1) /
        FloatLiteral binary32_platform 2) = 255 / 2"
    "real_of (FloatLiteral binary32_platform 255 * ((- 1 :: binary32) + 1) /
        FloatLiteral binary32_platform 2) = 0"
    by (simp_all add: binary32_platform_def binary32_ops r)
  show ?thesis
    using
      Encode_colours [of "\<lparr>bIsOffRoad = True, bHasDirection = True,
          Direction = \<lparr>X = 1 :: binary32, Y = 0, Z = - 1\<rparr>\<rparr>" binary32_platform
        "lane_cell \<lparr>X = 1, Y = 0, Z = - 1\<rparr>"]
      Encode_colours [of "\<lparr>bIsOffRoad = False, bHasDirection = False,
          Direction = \<lparr>X = 1 :: binary32, Y = 0, Z = - 1\<rparr>\<rparr>" binary32_platform
        "lane_cell \<lparr>X = 1, Y = 0, Z = - 1\<rparr>"]
      Encode_colours [of "lane_cell \<lparr>X = 1, Y = 0, Z = - 1\<rparr>" binary32_platform
        "lane_cell \<lparr>X = 1, Y = 0, Z = - 1\<rparr>"]
    by (simp add: lane_cell_def v) (simp add: binary32_ops)
qed

lemma round_binary32_tie: "round_binary32 (33554431 / 16777216) = 2"
  by (subst round_binary32_eval [of 126]) (simp_all add: round_even_def)

lemma ToColor_near_one: "ToColor binary32_platform (Binary32 (16777215 / 16777216)) = 255"
  using round_binary32_int [of 510]
  by (simp add: ToColor_binary32 round_binary32_tie)

text \<open>
  C6, as stated, fails on a direction of length one: the formula is evaluated in binary32,
  and the rounded value can reach the next integer where the exact value does not. For
  the direction \<open>near_unit\<close>, whose length differs from 1 by less than \<open>2^-35\<close>,
  \<open>X + 1\<close> is \<open>2 - 2^-24\<close>, halfway between the neighbouring values
  \<open>2 - 2^-23\<close> and \<open>2\<close>; it rounds to 2, and the red channel is 255, where
  \<open>floor(255 * (X + 1) / 2) = 254\<close>.
\<close>

theorem Encode_rounds_up:
  "\<not> bIsOffRoad (lane_cell near_unit) \<and> bHasDirection (lane_cell near_unit) \<and>
   \<bar>(real_of (X near_unit))\<^sup>2 + (real_of (Y near_unit))\<^sup>2 + (real_of (Z near_unit))\<^sup>2 - 1\<bar>
     < 1 / 2 ^ 35 \<and>
   uint (R (Encode binary32_platform (lane_cell near_unit))) = 255 \<and>
   \<lfloor>255 * (real_of (X (Direction (lane_cell near_unit))) + 1) / 2\<rfloor> = 254"
  by (simp add: lane_cell_def near_unit_def Encode_def ToColor_near_one power2_eq_square)

subsection \<open>A query that never returns\<close>

lemma Intersect_check_ctor:
  "Intersect_check P (URoadMap_ctor P) T D x y st =
     Inr (fst st + 1, (snd st)\<lparr>OffRoad := OffRoad (snd st) + 1\<rparr>)"
  by (simp add: Intersect_check_def ctor_query empty_pixel_def Let_def)

text \<open>
  C9 fails on the code. With the sampling density \<open>-1\<close> the step is \<open>-1\<close>; on the
  freshly constructed map, with the identity transform and the extent \<open>(1, 1, 1)\<close>, the
  inner loop starts at \<open>y = -1 < 1\<close> and never gets nearer to its bound, so the call
  never returns: in binary32 (where the counter stops changing at \<open>-16777216\<close>) and in
  exact arithmetic alike. \<open>for_loop_diverges\<close> is the general fact: a loop whose step
  never takes the counter out of the range, and whose body never fails, does not end.
\<close>

theorem Intersect_never_returns:
  "Intersect binary32_platform (URoadMap_ctor binary32_platform) \<lparr>X = 0, Y = 0, Z = 0\<rparr>
     \<lparr>X = 1, Y = 1, Z = 1\<rparr> (- 1) = None \<and>
   Intersect exact_platform (URoadMap_ctor exact_platform) (0, \<lparr>X = 0, Y = 0, Z = 0\<rparr>)
     \<lparr>X = 1, Y = 1, Z = 1\<rparr> (- 1) = None"
proof
  let ?P = binary32_platform
  let ?T = "\<lparr>X = 0 :: binary32, Y = 0, Z = 0\<rparr>"
  let ?inner = "\<lambda>x. for_loop
      (\<lambda>y st. Some (Intersect_check ?P (URoadMap_ctor ?P) ?T (GetForwardVector ?P ()) x y st))
      (Binary32 1) (Binary32 (- 1)) (Binary32 (- 1))"
  have stay: "v + Binary32 (- 1) < Binary32 1" if "v < Binary32 1" for v
  proof -
    from that have "real_of v + - 1 \<le> 0"
      by (simp add: less_binary32_def)
    then have "round_binary32 (real_of v + - 1) \<le> 0"
      by (rule round_binary32_nonpos)
    then show ?thesis
      by (simp add: less_binary32_def plus_binary32_def)
  qed
  have inner: "?inner x st = None" for x st
    by (rule for_loop_diverges) (simp_all add: Intersect_check_ctor stay, simp add: less_binary32_def)
  have "for_loop ?inner (Binary32 1) (Binary32 (- 1)) (Binary32 (- 1))
      (0, \<lparr>OffRoad = 0, OppositeLane = 0\<rparr>) = None"
    by (subst for_loop.simps) (simp add: inner less_binary32_def)
  moreover have "(1 :: binary32) / - 1 = Binary32 (- 1)"
    using round_binary32_int [of "- 1"]
    by (simp add: divide_binary32_def one_binary32_def uminus_binary32_def)
  ultimately show "Intersect ?P (URoadMap_ctor ?P) ?T \<lparr>X = 1, Y = 1, Z = 1\<rparr> (- 1) = None"
    by (simp add: Intersect_def one_binary32_def uminus_binary32_def)
next
  let ?P = exact_platform
  let ?T = "(0 :: int, \<lparr>X = 0 :: real, Y = 0, Z = 0\<rparr>)"
  let ?inner = "\<lambda>x. for_loop
      (\<lambda>y st. Some (Intersect_check ?P (URoadMap_ctor ?P) ?T
         (GetForwardVector ?P (GetRotation ?P ?T)) x y st))
      1 (- 1) (- 1)"
  have inner: "?inner x st = None" for x st
    by (rule for_loop_diverges) (simp_all add: Intersect_check_ctor)
  have "for_loop ?inner 1 (- 1) (- 1) (0, \<lparr>OffRoad = 0, OppositeLane = 0\<rparr>) = None"
    by (subst for_loop.simps) (simp add: inner)
  then show "Intersect ?P (URoadMap_ctor ?P) ?T \<lparr>X = 1, Y = 1, Z = 1\<rparr> (- 1) = None"
    by (simp add: Intersect_def)
qed

subsection \<open>From a pixel to the world and back\<close>

lemma sint_eq_unat:
  fixes w :: "32 word"
  assumes "unat w < 2 ^ 31"
  shows "sint w = int (unat w)"
proof -
  from assms have "int (unat w) < int (2 ^ 31)"
    by (simp only: of_nat_less_iff)
  then have small: "uint w < 2 ^ 31"
    by simp
  have "sint w = signed_take_bit 31 (uint w)"
    by (simp add: sint_uint)
  also have "\<dots> = uint w"
  proof (rule signed_take_bit_int_eq_self)
    have "(0 :: int) \<le> 2 ^ 31"
      by simp
    then have "- (2 ^ 31) \<le> (0 :: int)"
      by (simp only: neg_le_0_iff_le)
    also have "0 \<le> uint w"
      by (rule uint_ge_0)
    finally show "- (2 ^ 31) \<le> uint w" .
    show "uint w < 2 ^ 31"
      by (rule small)
  qed
  also have "\<dots> = int (unat w)"
    by (rule uint_nat)
  finally show ?thesis .
qed

lemma Clamp_id:
  fixes x W :: uint32
  assumes "x < W" "unat W \<le> 2 ^ 31"
  shows "Clamp x 0 (W - 1) = x"
proof -
  from assms(1) have xW: "unat x < unat W"
    by (simp only: word_less_nat_alt)
  then have "0 < unat W"
    by simp
  then have W1: "unat (W - 1) = unat W - 1"
    by (rule unat_minus_one_properly)
  from xW assms(2) have xs: "unat x < 2 ^ 31"
    by (rule less_le_trans)
  from W1 \<open>0 < unat W\<close> assms(2) have Ws: "unat (W - 1) < 2 ^ 31"
    by simp
  from xW W1 have le: "unat x \<le> unat (W - 1)"
    by simp
  have sx: "sint x = int (unat x)"
    using xs by (rule sint_eq_unat)
  have sW: "sint (W - 1) = int (unat (W - 1))"
    using Ws by (rule sint_eq_unat)
  have "\<not> sint x < sint 0"
    unfolding sx by simp
  then have neg: "\<not> x <s 0"
    unfolding word_sless_alt .
  have "x = W - 1" if "\<not> x <s W - 1"
  proof -
    from that have "\<not> sint x < sint (W - 1)"
      unfolding word_sless_alt .
    then have "\<not> int (unat x) < int (unat (W - 1))"
      unfolding sx sW .
    then have "unat (W - 1) \<le> unat x"
      unfolding of_nat_less_iff not_less .
    with le have "unat x = unat (W - 1)"
      by (rule antisym)
    then show ?thesis
      by (simp only: word_unat_eq_iff)
  qed
  with neg show ?thesis
    unfolding Clamp_def by presburger
qed

lemma QuarterTurns_back: "QuarterTurns k (QuarterTurns (- k) v) = v"
proof -
  have "k mod 4 = 0 \<or> k mod 4 = 1 \<or> k mod 4 = 2 \<or> k mod 4 = 3"
    by presburger
  then consider "k mod 4 = 0" | "k mod 4 = 1" | "k mod 4 = 2" | "k mod 4 = 3"
    by blast
  then show ?thesis
  proof cases
    case 1
    then have "(- k) mod 4 = 0" by presburger
    with 1 show ?thesis by (simp add: QuarterTurns_def)
  next
    case 2
    then have "(- k) mod 4 = 3" by presburger
    with 2 show ?thesis by (simp add: QuarterTurns_def)
  next
    case 3
    then have "(- k) mod 4 = 2" by presburger
    with 3 show ?thesis by (simp add: QuarterTurns_def)
  next
    case 4
    then have "(- k) mod 4 = 1" by presburger
    with 4 show ?thesis by (simp add: QuarterTurns_def)
  qed
qed

lemma FloorToInt_exact: "FloorToInt exact_platform (UIntToFloat exact_platform x) = x"
proof -
  have "FloorToInt exact_platform (UIntToFloat exact_platform x) = word_of_int \<lfloor>real (unat x)\<rfloor>"
    by (simp add: exact_platform_def)
  also have "\<lfloor>real (unat x)\<rfloor> = int (unat x)"
    by (rule floor_of_nat)
  also have "word_of_int (int (unat x)) = x"
    by simp
  finally show ?thesis .
qed

text \<open>
  In exact arithmetic every step of the way out is undone on the way back, for every
  nonzero number of cells per unit, every offset and every transform of the instance.
  This is a property of the formulas; what the code computes is the subject of the rest
  of this section.
\<close>

lemma toGrid_GetWorldLocation_exact:
  assumes valid: "IsValid m" and cells: "length (RoadMap m) < 2 ^ 31"
    and x: "x < Width m" and y: "y < Height m"
    and scale: "PixelsPerCentimeter m \<noteq> 0"
  shows "toGrid exact_platform m (GetWorldLocation exact_platform m x y) = (x, y)"
proof -
  from valid have len: "unat (Width m) * unat (Height m) = length (RoadMap m)"
    and W: "0 < unat (Width m)" and H: "0 < unat (Height m)"
    by (simp_all add: IsValid_def)
  have "unat (Width m) \<le> unat (Width m) * unat (Height m)"
    "unat (Height m) \<le> unat (Width m) * unat (Height m)"
    using W H by simp_all
  with len cells have "unat (Width m) \<le> 2 ^ 31" "unat (Height m) \<le> 2 ^ 31"
    by simp_all
  with x y have clamp: "Clamp x 0 (Width m - 1) = x" "Clamp y 0 (Height m - 1) = y"
    by (simp_all add: Clamp_id)
  let ?rel = "\<lparr>X = UIntToFloat exact_platform x / PixelsPerCentimeter m,
               Y = UIntToFloat exact_platform y / PixelsPerCentimeter m, Z = 0\<rparr>"
  have undo: "FVector_minus
      (TransformPosition exact_platform (WorldToMap m) (GetWorldLocation exact_platform m x y))
      (MapOffset m) = ?rel"
    by (simp add: GetWorldLocation_def exact_platform_def QuarterTurns_back
        FVector_plus_def FVector_minus_def)
  show ?thesis
    using scale clamp FloorToInt_exact [of x] FloorToInt_exact [of y]
    by (simp add: toGrid_def Let_def undo ClampFloatToUInt_def)
qed






















subsection \<open>Counting the samples\<close>

lemma for_loop_steps:
  assumes body: "\<And>v st. body v st = Some (Inr (f st))"
    and inside: "\<And>i. i < n \<Longrightarrow> ((\<lambda>v. v + Step) ^^ i) v0 < Bound"
    and leave: "\<not> ((\<lambda>v. v + Step) ^^ n) v0 < Bound"
  shows "for_loop body Bound Step v0 st = Some (Inr ((f ^^ n) st))"
  using inside leave
proof (induction n arbitrary: v0 st)
  case 0
  then show ?case by (simp add: for_loop_exit)
next
  case (Suc n)
  have shift: "((\<lambda>v. v + Step) ^^ i) (v0 + Step) = ((\<lambda>v. v + Step) ^^ Suc i) v0" for i
    using funpow_swap1 [of "\<lambda>v. v + Step" i v0] by simp
  have "v0 < Bound"
    using Suc.prems(1) [of 0] by simp
  moreover have "for_loop body Bound Step (v0 + Step) (f st) = Some (Inr ((f ^^ n) (f st)))"
  proof (rule Suc.IH)
    show "((\<lambda>v. v + Step) ^^ i) (v0 + Step) < Bound" if "i < n" for i
      unfolding shift using that by (intro Suc.prems(1)) simp
    show "\<not> ((\<lambda>v. v + Step) ^^ n) (v0 + Step) < Bound"
      unfolding shift by (rule Suc.prems(2))
  qed
  ultimately show ?case
    by (simp add: for_loop_step [OF _ body] funpow_swap1)
qed

lemma GetDataAt_single_cell:
  assumes "RoadMap m = [c]" "Width m = 1" "Height m = 1"
  shows "GetDataAt P m WorldLocation = Inr c"
proof -
  have valid: "IsValid m"
    using assms by (simp add: IsValid_def)
  obtain x y where xy: "toGrid P m WorldLocation = (x, y)"
    by (cases "toGrid P m WorldLocation")
  then have "x = 0" "y = 0"
    using assms by (auto simp: toGrid_def Let_def ClampFloatToUInt_def Clamp_def)
  with xy valid assms show ?thesis
    by (simp add: GetDataAt_def GetDataAtPixel_def)
qed

lemma binary32_count:
  assumes "\<bar>h\<bar> < 2 ^ 24" "\<bar>h + 2 * int n\<bar> < 2 ^ 24"
  shows "((\<lambda>v. v + Binary32 1) ^^ n) (Binary32 (of_int h / 2)) =
           Binary32 (of_int (h + 2 * int n) / 2)"
  using assms
proof (induction n)
  case 0
  show ?case by simp
next
  case (Suc n)
  then have "\<bar>h + 2 * int n\<bar> < 2 ^ 24"
    by (simp add: abs_less_iff)
  with Suc have IH: "((\<lambda>v. v + Binary32 1) ^^ n) (Binary32 (of_int h / 2)) =
      Binary32 (of_int (h + 2 * int n) / 2)"
    by simp
  have "of_int (h + 2 * int n) / 2 + (1 :: real) = of_int (h + 2 * int (Suc n)) / 2"
    by simp
  then have "round_binary32 (of_int (h + 2 * int n) / 2 + 1) = of_int (h + 2 * int (Suc n)) / 2"
    using round_binary32_half [OF Suc.prems(2)] by (simp only:)
  with IH show ?case
    by (simp add: plus_binary32_def)
qed

lemma binary32_tally:
  "((\<lambda>a. a + 1) ^^ n) (0 :: binary32) = Binary32 (real (min n 16777216))"
proof (induction n)
  case 0
  show ?case by (simp add: zero_binary32_def)
next
  case (Suc n)
  show ?case
  proof (cases "n < 16777216")
    case True
    then have "\<bar>int n + 1\<bar> \<le> 2 ^ 24"
      by simp
    from round_binary32_int [OF this] have "round_binary32 (real n + 1) = real n + 1"
      by simp
    with True Suc show ?thesis
      by (simp add: plus_binary32_def one_binary32_def min_def)
  next
    case False
    with Suc show ?thesis
      by (simp add: plus_binary32_def one_binary32_def min_def round_binary32_saturate)
  qed
qed

lemma binary32_loop:
  assumes body: "\<And>v st. body v st = Some (Inr (f st))"
    and h: "0 < h" "h < 2 ^ 24"
  shows "for_loop body (Binary32 (of_int h / 2)) (Binary32 1) (Binary32 (- (of_int h / 2))) st =
           Some (Inr ((f ^^ nat h) st))"
proof (rule for_loop_steps [OF body])
  have start: "Binary32 (- (of_int h / 2)) = Binary32 (of_int (- h) / 2)"
    by simp
  have iter: "((\<lambda>v. v + Binary32 1) ^^ i) (Binary32 (- (of_int h / 2))) =
      Binary32 (of_int (- h + 2 * int i) / 2)" if "i \<le> nat h" for i
    unfolding start using that h by (intro binary32_count) (simp_all add: abs_less_iff)
  show "((\<lambda>v. v + Binary32 1) ^^ i) (Binary32 (- (of_int h / 2))) < Binary32 (of_int h / 2)"
    if "i < nat h" for i
    using that by (simp add: iter less_binary32_def)
  show "\<not> ((\<lambda>v. v + Binary32 1) ^^ nat h) (Binary32 (- (of_int h / 2))) < Binary32 (of_int h / 2)"
    using h by (simp add: iter less_binary32_def)
qed

lemma tally_OppositeLane:
  fixes c :: uint32
  shows "((\<lambda>st. (fst st + 1, (snd st)\<lparr>OppositeLane := OppositeLane (snd st) + 1\<rparr>)) ^^ n) (c, r) =
     (c + of_nat n, r\<lparr>OppositeLane := ((\<lambda>a. a + 1) ^^ n) (OppositeLane r)\<rparr>)"
  by (induction n) (simp_all add: ac_simps)

lemma tally_OffRoad:
  fixes c :: uint32
  shows "((\<lambda>st. (fst st + 1, (snd st)\<lparr>OffRoad := OffRoad (snd st) + 1\<rparr>)) ^^ n) (c, r) =
     (c + of_nat n, r\<lparr>OffRoad := ((\<lambda>a. a + 1) ^^ n) (OffRoad r)\<rparr>)"
  by (induction n) (simp_all add: ac_simps)

lemma binary32_step_one: "(1 :: binary32) / 1 = Binary32 1"
  by (simp add: divide_binary32_def one_binary32_def)

lemma Intersect_check_lane_grid:
  "Intersect_check binary32_platform lane_grid T (GetForwardVector binary32_platform q) x y st =
   Inr (fst st + 1, (snd st)\<lparr>OppositeLane := OppositeLane (snd st) + 1\<rparr>)"
proof -
  have "GetDataAt binary32_platform lane_grid loc =
      Inr \<lparr>bIsOffRoad = False, bHasDirection = True, Direction = \<lparr>X = 1, Y = 0, Z = 0\<rparr>\<rparr>" for loc
    by (rule GetDataAt_single_cell) (simp_all add: lane_grid_def)
  moreover have "(0 :: binary32) < DotProduct \<lparr>X = 1, Y = 0, Z = 0\<rparr> \<lparr>X = 1, Y = 0, Z = 0\<rparr>"
    by (simp add: DotProduct_def binary32_ops)
  ultimately show ?thesis
    by (simp add: Intersect_check_def Let_def binary32_platform_def)
qed

lemma round_binary32_16777218: "round_binary32 16777218 = 16777218"
  using round_binary32_exact [of 8388609 150] by simp

text \<open>
  C4 fails on the code. \<open>Result.OppositeLane\<close> is a \<open>float\<close> that counts by adding
  \<open>1.0f\<close>; at \<open>2^24\<close> the sum \<open>2^24 + 1\<close> rounds back to \<open>2^24\<close> and the count
  stops, while \<open>CheckCount\<close> goes on. On the grid of one cell with direction
  \<open>(1, 0, 0)\<close>, a box with the identity transform (forward vector \<open>(1, 0, 0)\<close>), extent
  \<open>(3, 1398101.5, 0)\<close> and one check per unit takes \<open>6 * 2796203 = 2^24 + 2\<close> samples,
  all in that cell, all with a positive dot product. The fraction returned is
  \<open>fl(2^24 / (2^24 + 2)) = 1 - 2^-23\<close>, not \<open>1.0\<close>.
\<close>

theorem Intersect_lane_grid:
  "Intersect binary32_platform lane_grid \<lparr>X = 0, Y = 0, Z = 0\<rparr>
     \<lparr>X = Binary32 3, Y = Binary32 (2796203 / 2), Z = Binary32 0\<rparr> 1 =
   Some (Inr (\<lparr>OffRoad = Binary32 0, OppositeLane = Binary32 (8388607 / 8388608)\<rparr>, []))"
proof -
  let ?P = binary32_platform
  let ?T = "\<lparr>X = 0 :: binary32, Y = 0, Z = 0\<rparr>"
  let ?f = "\<lambda>st :: uint32 \<times> binary32 FRoadMapIntersectionResult.
      (fst st + 1, (snd st)\<lparr>OppositeLane := OppositeLane (snd st) + 1\<rparr>)"
  let ?body = "\<lambda>x y st. Some (Intersect_check ?P lane_grid ?T (GetForwardVector ?P ()) x y st)"
  let ?inner = "\<lambda>x. for_loop (?body x)
      (Binary32 (2796203 / 2)) (Binary32 1) (Binary32 (- (2796203 / 2)))"
  let ?st = "(0 :: uint32, \<lparr>OffRoad = 0 :: binary32, OppositeLane = 0\<rparr>)"
  have inner: "?inner x st = Some (Inr ((?f ^^ 2796203) st))" for x st
    using binary32_loop [of "?body x" ?f 2796203 st]
    by (simp add: Intersect_check_lane_grid)
  have "for_loop ?inner (Binary32 3) (Binary32 1) (Binary32 (- 3)) ?st =
        Some (Inr (((?f ^^ 2796203) ^^ 6) ?st))"
    using binary32_loop [of ?inner "?f ^^ 2796203" 6 ?st]
    by (simp add: inner)
  also have "((?f ^^ 2796203) ^^ 6) = ?f ^^ 16777218"
    by (simp add: funpow_mult)
  also have "(?f ^^ 16777218) ?st =
      (16777218, \<lparr>OffRoad = 0, OppositeLane = Binary32 16777216\<rparr>)"
    by (simp add: tally_OppositeLane binary32_tally)
  finally have loops: "for_loop ?inner (Binary32 3) (Binary32 1) (Binary32 (- 3)) ?st =
      Some (Inr (16777218, \<lparr>OffRoad = 0, OppositeLane = Binary32 16777216\<rparr>))" .
  have count: "UIntToFloat ?P 16777218 = Binary32 16777218"
    by (simp add: binary32_platform_def round_binary32_16777218)
  have "round_binary32 (8388608 / 8388609) = 8388607 / 8388608"
    using round_binary32_quotient by simp
  then have fractions: "Binary32 0 / Binary32 16777218 = Binary32 0"
    "Binary32 16777216 / Binary32 16777218 = Binary32 (8388607 / 8388608)"
    by (simp_all add: divide_binary32_def)
  from loops show ?thesis
    by (simp add: Intersect_def binary32_step_one uminus_binary32_def zero_binary32_def
        count fractions)
qed


text \<open>
  C1 fails on the code, by the same counters. \<open>CheckCount\<close> is a \<open>uint32\<close> and
  wraps at \<open>2^32\<close>. On the freshly constructed map (one off-road cell), a box with the
  identity transform, extent \<open>(320.5, 3350208.5, 0)\<close> and one check per unit takes
  \<open>641 * 6700417 = 2^32 + 1\<close> samples, all off-road. \<open>CheckCount\<close> ends as 1,
  \<open>Result.OffRoad\<close> as \<open>2^24\<close> (where the \<open>float\<close> count stops), and the
  fraction returned is \<open>16777216.0\<close>.
\<close>

theorem Intersect_fraction_above_one:
  "Intersect binary32_platform (URoadMap_ctor binary32_platform) \<lparr>X = 0, Y = 0, Z = 0\<rparr>
     \<lparr>X = Binary32 (641 / 2), Y = Binary32 (6700417 / 2), Z = Binary32 0\<rparr> 1 =
   Some (Inr (\<lparr>OffRoad = Binary32 16777216, OppositeLane = Binary32 0\<rparr>, []))"
proof -
  let ?P = binary32_platform
  let ?T = "\<lparr>X = 0 :: binary32, Y = 0, Z = 0\<rparr>"
  let ?f = "\<lambda>st :: uint32 \<times> binary32 FRoadMapIntersectionResult.
      (fst st + 1, (snd st)\<lparr>OffRoad := OffRoad (snd st) + 1\<rparr>)"
  let ?body = "\<lambda>x y st. Some (Intersect_check ?P (URoadMap_ctor ?P) ?T (GetForwardVector ?P ()) x y st)"
  let ?inner = "\<lambda>x. for_loop (?body x)
      (Binary32 (6700417 / 2)) (Binary32 1) (Binary32 (- (6700417 / 2)))"
  let ?st = "(0 :: uint32, \<lparr>OffRoad = 0 :: binary32, OppositeLane = 0\<rparr>)"
  have inner: "?inner x st = Some (Inr ((?f ^^ 6700417) st))" for x st
    using binary32_loop [of "?body x" ?f 6700417 st]
    by (simp add: Intersect_check_ctor)
  have "for_loop ?inner (Binary32 (641 / 2)) (Binary32 1) (Binary32 (- (641 / 2))) ?st =
        Some (Inr (((?f ^^ 6700417) ^^ 641) ?st))"
    using binary32_loop [of ?inner "?f ^^ 6700417" 641 ?st]
    by (simp add: inner)
  also have "((?f ^^ 6700417) ^^ 641) = ?f ^^ 4294967297"
    by (simp add: funpow_mult)
  also have "(?f ^^ 4294967297) ?st =
      (1, \<lparr>OffRoad = Binary32 16777216, OppositeLane = 0\<rparr>)"
    by (simp add: tally_OffRoad binary32_tally)
  finally have loops: "for_loop ?inner (Binary32 (641 / 2)) (Binary32 1) (Binary32 (- (641 / 2))) ?st =
      Some (Inr (1, \<lparr>OffRoad = Binary32 16777216, OppositeLane = 0\<rparr>))" .
  have count: "UIntToFloat ?P 1 = Binary32 1"
    by (simp add: binary32_platform_def)
  have "round_binary32 16777216 = 16777216"
    using round_binary32_int [of 16777216] by simp
  then have fractions: "Binary32 0 / Binary32 1 = Binary32 0"
    "Binary32 16777216 / Binary32 1 = Binary32 16777216"
    by (simp_all add: divide_binary32_def)
  from loops show ?thesis
    by (simp add: Intersect_def binary32_step_one uminus_binary32_def zero_binary32_def
        count fractions)
qed


end
